theory Spec2Isabelle
  imports Complex_Main "HOL-Library.AList"
begin

section \<open>Appointment rows\<close>

text \<open>
  A row of \<open>graph_df\<close>, the frame the module builds after reading the CSV files: every
  column is nullable (\<open>None\<close> is pandas' NA, NaN or NaT). Ages are
  numbers after \<open>pd.to_numeric\<close>; dates are timestamps after \<open>pd.to_datetime\<close>, kept
  here as integers. Python's floats are modelled by the real numbers they approximate.
\<close>

record raw_row =
  raw_PATIENT_KEY :: "string option"
  raw_AGE :: "real option"
  raw_ORG_CODE_LOCAL_PATIENT_IDENTIFIER :: "string option"
  raw_ATTENDED_OR_DID_NOT_ATTEND :: "string option"
  raw_OUTCOME_OF_ATTENDANCE :: "string option"
  raw_POSTCODE_SECTOR_OF_USUAL_ADDRESS :: "string option"
  raw_APPOINTMENT_DATE :: "int option"
  raw_ORGANISATION_CODE_CODE_OF_PROVIDER :: "string option"
  raw_SITE_CODE_OF_TREATMENT :: "string option"
  raw_PROVIDER_LOCATION :: "string option"
  raw_TREATMENT_FUNCTION_CODE :: "string option"
  raw_REFERRING_ORGANISATION_CODE :: "string option"
  raw_REFERRAL_REQUEST_RECEIVED_DATE :: "int option"

text \<open>
  A row of \<open>network_df\<close>, the frame \<open>clean_for_network\<close> returns: the two identifiers
  are present (\<open>dropna\<close>), the attendance code is filled, and \<open>DNA_FLAG\<close> is added.
\<close>

record net_row =
  PATIENT_KEY :: string
  AGE :: "real option"
  ORG_CODE_LOCAL_PATIENT_IDENTIFIER :: "string option"
  ATTENDED_OR_DID_NOT_ATTEND :: string
  OUTCOME_OF_ATTENDANCE :: "string option"
  POSTCODE_SECTOR_OF_USUAL_ADDRESS :: "string option"
  APPOINTMENT_DATE :: "int option"
  ORGANISATION_CODE_CODE_OF_PROVIDER :: "string option"
  SITE_CODE_OF_TREATMENT :: string
  PROVIDER_LOCATION :: "string option"
  TREATMENT_FUNCTION_CODE :: "string option"
  REFERRING_ORGANISATION_CODE :: "string option"
  REFERRAL_REQUEST_RECEIVED_DATE :: "int option"
  DNA_FLAG :: nat

subsection \<open>\<open>clean_for_network\<close>\<close>

text \<open>
  One row of \<open>clean_for_network\<close>: \<open>dropna(subset=[PATIENT_KEY, SITE_CODE_OF_TREATMENT])\<close>
  drops the row (\<open>None\<close>) when an identifier is missing; \<open>fillna('0')\<close> fills the
  attendance code; the flag is 1 for the codes 3 and 7 and 0 otherwise.
\<close>

definition clean_row :: "raw_row \<Rightarrow> net_row option" where
  "clean_row r =
     (case raw_PATIENT_KEY r of
        None \<Rightarrow> None
      | Some patient \<Rightarrow>
          (case raw_SITE_CODE_OF_TREATMENT r of
             None \<Rightarrow> None
           | Some site \<Rightarrow>
               (let attended = (case raw_ATTENDED_OR_DID_NOT_ATTEND r of None \<Rightarrow> ''0'' | Some c \<Rightarrow> c)
                in Some \<lparr>PATIENT_KEY = patient,
                         AGE = raw_AGE r,
                         ORG_CODE_LOCAL_PATIENT_IDENTIFIER = raw_ORG_CODE_LOCAL_PATIENT_IDENTIFIER r,
                         ATTENDED_OR_DID_NOT_ATTEND = attended,
                         OUTCOME_OF_ATTENDANCE = raw_OUTCOME_OF_ATTENDANCE r,
                         POSTCODE_SECTOR_OF_USUAL_ADDRESS = raw_POSTCODE_SECTOR_OF_USUAL_ADDRESS r,
                         APPOINTMENT_DATE = raw_APPOINTMENT_DATE r,
                         ORGANISATION_CODE_CODE_OF_PROVIDER = raw_ORGANISATION_CODE_CODE_OF_PROVIDER r,
                         SITE_CODE_OF_TREATMENT = site,
                         PROVIDER_LOCATION = raw_PROVIDER_LOCATION r,
                         TREATMENT_FUNCTION_CODE = raw_TREATMENT_FUNCTION_CODE r,
                         REFERRING_ORGANISATION_CODE = raw_REFERRING_ORGANISATION_CODE r,
                         REFERRAL_REQUEST_RECEIVED_DATE = raw_REFERRAL_REQUEST_RECEIVED_DATE r,
                         DNA_FLAG = (if attended = ''3'' \<or> attended = ''7'' then 1 else 0)\<rparr>)))"

definition clean_for_network :: "raw_row list \<Rightarrow> net_row list" where
  "clean_for_network df = List.map_filter clean_row df"

section \<open>The bipartite graph\<close>

datatype exn = IndexError | ZeroDivisionError | KeyError string | ValueError string | Exception string
  | HTTPException string

datatype age_group = Child | Young_Adult | Adult | Senior | Unknown

datatype risk_category = High | Medium | Low

text \<open>
  The attribute dictionaries of the three kinds of graph element. Names that two
  dictionaries share are prefixed for the site (\<open>site_\<close>) and, for the rate, the edge.
\<close>

record patient_attrs =
  age :: "real option"
  age_group :: age_group
  postcode :: "string option"
  org_code :: "string option"
  total_appointments :: nat
  total_dnas :: nat
  dna_rate :: real
  unique_sites :: nat
  risk_category :: risk_category

record site_attrs =
  provider_location :: "string option"
  site_org_code :: "string option"
  site_treatment_function :: "string option"
  site_total_appointments :: nat
  site_total_dnas :: nat
  site_dna_rate :: real
  unique_patients :: nat

datatype node = PatientNode patient_attrs | SiteNode site_attrs

text \<open>
  An edge's dictionary. \<open>edge_dna_rate\<close> is the key \<open>dna_rate\<close>, absent (\<open>None\<close>) until
  the last loop of graph construction sets it.
\<close>

record edge_attrs =
  weight :: nat
  dna_count :: nat
  appointment_date :: "int option"
  treatment_function :: "string option"
  referring_org :: "string option"
  outcome :: "string option"
  edge_dna_rate :: "real option"

type_synonym node_id = string

text \<open>
  \<open>nx.Graph\<close>: nodes and edges are dictionaries in insertion order, so association
  lists. The graph is undirected: an edge stored under \<open>(u, v)\<close> is also the edge
  \<open>(v, u)\<close>.
\<close>

record graph =
  nodes :: "(node_id \<times> node) list"
  edges :: "((node_id \<times> node_id) \<times> edge_attrs) list"

definition has_edge :: "((node_id \<times> node_id) \<times> edge_attrs) list \<Rightarrow> node_id \<Rightarrow> node_id \<Rightarrow> bool" where
  "has_edge es u v = ((u, v) \<in> fst ` set es \<or> (v, u) \<in> fst ` set es)"

definition get_edge :: "((node_id \<times> node_id) \<times> edge_attrs) list \<Rightarrow> node_id \<Rightarrow> node_id \<Rightarrow> edge_attrs option" where
  "get_edge es u v = (case map_of es (u, v) of Some e \<Rightarrow> Some e | None \<Rightarrow> map_of es (v, u))"

text \<open>\<open>G[u][v][...] = ...\<close>: the stored edge between \<open>u\<close> and \<open>v\<close> is changed in place.\<close>

fun update_edge :: "(edge_attrs \<Rightarrow> edge_attrs) \<Rightarrow> node_id \<Rightarrow> node_id \<Rightarrow>
    ((node_id \<times> node_id) \<times> edge_attrs) list \<Rightarrow> ((node_id \<times> node_id) \<times> edge_attrs) list" where
  "update_edge f u v [] = []"
| "update_edge f u v ((k, e) # es) =
     (if k = (u, v) \<or> k = (v, u) then (k, f e) # es else (k, e) # update_edge f u v es)"

text \<open>pandas' \<open>unique()\<close>: the distinct values in order of first appearance.\<close>

fun unique_from :: "'a list \<Rightarrow> 'a list \<Rightarrow> 'a list" where
  "unique_from seen [] = []"
| "unique_from seen (x # xs) =
     (if x \<in> set seen then unique_from seen xs else x # unique_from (x # seen) xs)"

definition unique :: "'a list \<Rightarrow> 'a list" where
  "unique xs = unique_from [] xs"

subsection \<open>Patient nodes\<close>

definition classify_age :: "real option \<Rightarrow> age_group" where
  "classify_age a =
     (case a of
        None \<Rightarrow> Unknown
      | Some x \<Rightarrow> if x < 18 then Child else if x < 35 then Young_Adult
                  else if x < 65 then Adult else Senior)"

text \<open>
  The body of the loop over \<open>patients\<close>. \<open>patient_data.iloc[0]\<close> raises \<open>IndexError\<close> on
  an empty selection.
\<close>

definition patient_node_attrs :: "net_row list \<Rightarrow> string \<Rightarrow> exn + patient_attrs" where
  "patient_node_attrs df patient =
     (let patient_data = filter (\<lambda>r. PATIENT_KEY r = patient) df
      in case patient_data of
           [] \<Rightarrow> Inl IndexError
         | first_record # _ \<Rightarrow>
             (let total_appointments = length patient_data;
                  total_dnas = sum_list (map DNA_FLAG patient_data);
                  dna_rate = (real total_dnas + 1) / (real total_appointments + 5);
                  unique_sites = length (unique (map SITE_CODE_OF_TREATMENT patient_data))
              in Inr \<lparr>age = AGE first_record,
                      age_group = classify_age (AGE first_record),
                      postcode = POSTCODE_SECTOR_OF_USUAL_ADDRESS first_record,
                      org_code = ORG_CODE_LOCAL_PATIENT_IDENTIFIER first_record,
                      total_appointments = total_appointments,
                      total_dnas = total_dnas,
                      dna_rate = dna_rate,
                      unique_sites = unique_sites,
                      risk_category = (if dna_rate > 3 / 10 then High
                                       else if dna_rate > 1 / 10 then Medium else Low)\<rparr>))"

fun add_patient_nodes :: "net_row list \<Rightarrow> string list \<Rightarrow> (node_id \<times> node) list \<Rightarrow> exn + (node_id \<times> node) list" where
  "add_patient_nodes df [] ns = Inr ns"
| "add_patient_nodes df (patient # rest) ns =
     (case patient_node_attrs df patient of
        Inl e \<Rightarrow> Inl e
      | Inr a \<Rightarrow> add_patient_nodes df rest (AList.update (''P_'' @ patient) (PatientNode a) ns))"

subsection \<open>Site nodes\<close>

definition site_node_attrs :: "net_row list \<Rightarrow> string \<Rightarrow> exn + site_attrs" where
  "site_node_attrs df site =
     (let site_data = filter (\<lambda>r. SITE_CODE_OF_TREATMENT r = site) df
      in case site_data of
           [] \<Rightarrow> Inl IndexError
         | first_record # _ \<Rightarrow>
             (let total_appointments = length site_data;
                  total_dnas = sum_list (map DNA_FLAG site_data)
              in Inr \<lparr>provider_location = PROVIDER_LOCATION first_record,
                      site_org_code = ORGANISATION_CODE_CODE_OF_PROVIDER first_record,
                      site_treatment_function = TREATMENT_FUNCTION_CODE first_record,
                      site_total_appointments = total_appointments,
                      site_total_dnas = total_dnas,
                      site_dna_rate = (real total_dnas + 1) / (real total_appointments + 5),
                      unique_patients = length (unique (map PATIENT_KEY site_data))\<rparr>))"

fun add_site_nodes :: "net_row list \<Rightarrow> string list \<Rightarrow> (node_id \<times> node) list \<Rightarrow> exn + (node_id \<times> node) list" where
  "add_site_nodes df [] ns = Inr ns"
| "add_site_nodes df (site # rest) ns =
     (case site_node_attrs df site of
        Inl e \<Rightarrow> Inl e
      | Inr a \<Rightarrow> add_site_nodes df rest (AList.update (''S_'' @ site) (SiteNode a) ns))"

subsection \<open>Edges\<close>

text \<open>
  The body of the loop over \<open>df.iterrows()\<close>: an existing edge has its \<open>weight\<close> and
  \<open>dna_count\<close> incremented and nothing else touched; a new edge takes all its fields
  from the row. Both end nodes were added by the two loops before, so \<open>add_edge\<close> adds
  no node.
\<close>

definition edge_step :: "net_row \<Rightarrow> ((node_id \<times> node_id) \<times> edge_attrs) list \<Rightarrow> ((node_id \<times> node_id) \<times> edge_attrs) list" where
  "edge_step row es =
     (let patient_node = ''P_'' @ PATIENT_KEY row;
          site_node = ''S_'' @ SITE_CODE_OF_TREATMENT row
      in if has_edge es patient_node site_node
         then update_edge (\<lambda>e. e\<lparr>weight := weight e + 1, dna_count := dna_count e + DNA_FLAG row\<rparr>)
                patient_node site_node es
         else es @ [((patient_node, site_node),
                     \<lparr>weight = 1,
                      dna_count = DNA_FLAG row,
                      appointment_date = APPOINTMENT_DATE row,
                      treatment_function = TREATMENT_FUNCTION_CODE row,
                      referring_org = REFERRING_ORGANISATION_CODE row,
                      outcome = OUTCOME_OF_ATTENDANCE row,
                      edge_dna_rate = None\<rparr>)])"

fun add_edges :: "net_row list \<Rightarrow> ((node_id \<times> node_id) \<times> edge_attrs) list \<Rightarrow> ((node_id \<times> node_id) \<times> edge_attrs) list" where
  "add_edges [] es = es"
| "add_edges (row # rows) es = add_edges rows (edge_step row es)"

text \<open>
  The last loop, \<open>d['dna_rate'] = d['dna_count'] / d['weight']\<close>: a division, which
  fails on a zero weight.
\<close>

fun set_edge_rates :: "((node_id \<times> node_id) \<times> edge_attrs) list \<Rightarrow> exn + ((node_id \<times> node_id) \<times> edge_attrs) list" where
  "set_edge_rates [] = Inr []"
| "set_edge_rates ((k, d) # es) =
     (if weight d = 0 then Inl ZeroDivisionError
      else case set_edge_rates es of
             Inl e \<Rightarrow> Inl e
           | Inr es' \<Rightarrow> Inr ((k, d\<lparr>edge_dna_rate := Some (real (dna_count d) / real (weight d))\<rparr>) # es'))"

definition create_enhanced_bipartite_graph :: "net_row list \<Rightarrow> exn + graph" where
  "create_enhanced_bipartite_graph df =
     (let patients = unique (map PATIENT_KEY df);
          sites = unique (map SITE_CODE_OF_TREATMENT df)
      in case add_patient_nodes df patients [] of
           Inl e \<Rightarrow> Inl e
         | Inr ns \<Rightarrow>
             (case add_site_nodes df sites ns of
                Inl e \<Rightarrow> Inl e
              | Inr ns' \<Rightarrow>
                  (case set_edge_rates (add_edges df []) of
                     Inl e \<Rightarrow> Inl e
                   | Inr es \<Rightarrow> Inr \<lparr>nodes = ns', edges = es\<rparr>)))"

section \<open>Communities\<close>

text \<open>
  The result object of a partitioner (\<open>CommunityResult\<close>, \<open>LeidenResult\<close> and cdlib's
  clustering): an ordered list of communities, each a list of node ids, and the name of
  the method.
\<close>

record community_result =
  communities :: "node_id list list"
  method_name :: string

text \<open>
  The loop that both size filters run: a community of at least \<open>min_size\<close> nodes is
  appended to \<open>large_communities\<close>, the nodes of any other extend \<open>small_nodes\<close>.
\<close>

fun split_by_size :: "int \<Rightarrow> 'a list list \<Rightarrow> 'a list list \<Rightarrow> 'a list \<Rightarrow> 'a list list \<times> 'a list" where
  "split_by_size min_size [] large_communities small_nodes = (large_communities, small_nodes)"
| "split_by_size min_size (comm # rest) large_communities small_nodes =
     (if int (length comm) \<ge> min_size
      then split_by_size min_size rest (large_communities @ [comm]) small_nodes
      else split_by_size min_size rest large_communities (small_nodes @ comm))"

text \<open>
  Python's \<open>max(iterable, key=...)\<close>: the first element whose key is largest;
  \<open>ValueError\<close> (\<open>None\<close>) on an empty iterable.
\<close>

fun max_from :: "('a \<Rightarrow> nat) \<Rightarrow> 'a \<Rightarrow> 'a list \<Rightarrow> 'a" where
  "max_from key best [] = best"
| "max_from key best (x # xs) =
     (if key x > key best then max_from key x xs else max_from key best xs)"

definition py_max :: "('a \<Rightarrow> nat) \<Rightarrow> 'a list \<Rightarrow> 'a option" where
  "py_max key xs = (case xs of [] \<Rightarrow> None | x # rest \<Rightarrow> Some (max_from key x rest))"

text \<open>
  \<open>large_communities[largest_idx].extend(small_nodes)\<close> with
  \<open>largest_idx = max(range(len(large_communities)), key=lambda i: len(large_communities[i]))\<close>.
\<close>

definition merge_into_largest :: "'a list list \<Rightarrow> 'a list \<Rightarrow> exn + 'a list list" where
  "merge_into_largest large_communities small_nodes =
     (case py_max (\<lambda>i. length (large_communities ! i)) [0..<length large_communities] of
        None \<Rightarrow> Inl (ValueError ''max() arg is an empty sequence'')
      | Some largest_idx \<Rightarrow>
          Inr (large_communities[largest_idx := large_communities ! largest_idx @ small_nodes]))"

text \<open>\<open>filter_communities_by_size\<close> of \<open>data_prep.py\<close>.\<close>

definition filter_communities_by_size :: "community_result \<Rightarrow> int \<Rightarrow> exn + community_result" where
  "filter_communities_by_size community_result min_size =
     (case split_by_size min_size (communities community_result) [] [] of
        (large_communities, small_nodes) \<Rightarrow>
          (case (if small_nodes \<noteq> [] \<and> large_communities \<noteq> []
                 then merge_into_largest large_communities small_nodes
                 else if small_nodes \<noteq> [] \<and> int (length small_nodes) \<ge> min_size
                 then Inr (large_communities @ [small_nodes])
                 else Inr large_communities) of
             Inl e \<Rightarrow> Inl e
           | Inr merged \<Rightarrow>
               Inr \<lparr>communities = merged,
                    method_name = ''filtered_'' @ method_name community_result\<rparr>))"

text \<open>
  cdlib, when it is installed: the Leiden partitioner and the modularity evaluation.
  Both are external; either may raise.
\<close>

record cdlib =
  leiden :: "graph \<Rightarrow> exn + node_id list list"
  newman_girvan_modularity :: "graph \<Rightarrow> node_id list list \<Rightarrow> exn + real"

text \<open>
  \<open>detect_communities_leiden\<close> of \<open>data_prep_leiden.py\<close>. \<open>algorithms\<close> is \<open>None\<close> when
  the import of cdlib failed. Every exception inside the \<open>try\<close> block ends in
  \<open>return None\<close>; one of them is the \<open>ValueError\<close> of \<open>min(...)\<close> in the progress
  report when the partitioner returns no community at all.
\<close>

definition detect_communities_leiden :: "cdlib option \<Rightarrow> graph \<Rightarrow> int \<Rightarrow> community_result option" where
  "detect_communities_leiden algorithms G min_community_size =
     (case algorithms of
        None \<Rightarrow> None
      | Some lib \<Rightarrow>
          (case leiden lib G of
             Inl e \<Rightarrow> None
           | Inr leiden_result \<Rightarrow>
               (case newman_girvan_modularity lib G leiden_result of
                  Inl e \<Rightarrow> None
                | Inr modularity \<Rightarrow>
                    if leiden_result = [] then None
                    else (case split_by_size min_community_size leiden_result [] [] of
                            (large_communities, small_nodes) \<Rightarrow>
                              (case (if small_nodes \<noteq> [] \<and> large_communities \<noteq> []
                                     then merge_into_largest large_communities small_nodes
                                     else Inr large_communities) of
                                 Inl e \<Rightarrow> None
                               | Inr merged \<Rightarrow>
                                   Some \<lparr>communities = merged, method_name = ''leiden_filtered''\<rparr>)))))"

section \<open>Community statistics and risk\<close>

text \<open>
  \<open>collections.Counter\<close> of a list: a dictionary from the distinct elements, in order of
  first appearance, to their counts.
\<close>

fun counter_add :: "'a \<Rightarrow> ('a \<times> nat) list \<Rightarrow> ('a \<times> nat) list" where
  "counter_add x [] = [(x, 1)]"
| "counter_add x ((k, n) # rest) =
     (if k = x then (k, Suc n) # rest else (k, n) # counter_add x rest)"

definition Counter :: "'a list \<Rightarrow> ('a \<times> nat) list" where
  "Counter xs = foldl (\<lambda>c x. counter_add x c) [] xs"

definition counter_get :: "('a \<times> nat) list \<Rightarrow> 'a \<Rightarrow> nat" where
  "counter_get c k = (case map_of c k of None \<Rightarrow> 0 | Some n \<Rightarrow> n)"

text \<open>\<open>np.mean\<close>, \<open>np.median\<close> and \<open>np.std\<close>, each called on a non-empty list only.\<close>

definition mean :: "real list \<Rightarrow> real" where
  "mean xs = sum_list xs / real (length xs)"

definition median :: "real list \<Rightarrow> real" where
  "median xs =
     (let s = sort xs; n = length xs
      in if even n then (s ! (n div 2 - 1) + s ! (n div 2)) / 2 else s ! (n div 2))"

definition std :: "real list \<Rightarrow> real" where
  "std xs = sqrt (mean (map (\<lambda>x. (x - mean xs)\<^sup>2) xs))"

text \<open>
  \<open>calculate_community_risk_score\<close>. The division of two Python integers raises
  \<open>ZeroDivisionError\<close> when the counts sum to zero.
\<close>

definition calculate_community_risk_score :: "real list \<Rightarrow> (risk_category \<times> nat) list \<Rightarrow> exn + real" where
  "calculate_community_risk_score dna_rates risk_counts =
     (if dna_rates = [] then Inr 0
      else
        (let avg_dna = mean dna_rates;
             total_patients = (if risk_counts \<noteq> [] then sum_list (map snd risk_counts) else 1)
         in if total_patients = 0 then Inl ZeroDivisionError
            else
              (let high_risk_prop = real (counter_get risk_counts High) / real total_patients
               in Inr ((avg_dna * (7 / 10)) + (high_risk_prop * (3 / 10))))))"

text \<open>One row of \<open>community_df\<close>. The column \<open>size\<close> is \<open>comm_size\<close> here.\<close>

record community_stats =
  community_id :: nat
  comm_size :: nat
  patients_count :: nat
  sites_count :: nat
  avg_dna_rate :: real
  median_dna_rate :: real
  std_dna_rate :: real
  avg_age :: "real option"
  dominant_age_group :: age_group
  avg_appointments :: real
  high_risk_patients :: nat
  medium_risk_patients :: nat
  low_risk_patients :: nat
  avg_site_dna_rate :: real
  risk_score :: real

text \<open>\<open>G.nodes[n]\<close> for every node of a community: \<open>KeyError\<close> on a node the graph lacks.\<close>

fun node_data :: "graph \<Rightarrow> node_id list \<Rightarrow> exn + node list" where
  "node_data G [] = Inr []"
| "node_data G (n # rest) =
     (case map_of (nodes G) n of
        None \<Rightarrow> Inl (KeyError n)
      | Some d \<Rightarrow> (case node_data G rest of Inl e \<Rightarrow> Inl e | Inr ds \<Rightarrow> Inr (d # ds)))"

fun patients_of :: "node list \<Rightarrow> patient_attrs list" where
  "patients_of [] = []"
| "patients_of (PatientNode a # rest) = a # patients_of rest"
| "patients_of (SiteNode a # rest) = patients_of rest"

fun sites_of :: "node list \<Rightarrow> site_attrs list" where
  "sites_of [] = []"
| "sites_of (PatientNode a # rest) = sites_of rest"
| "sites_of (SiteNode a # rest) = a # sites_of rest"

text \<open>
  The body of the loop of \<open>analyze_community_dna_patterns\<close> for community \<open>i\<close>:
  \<open>Inr None\<close> is the \<open>continue\<close> taken when the community has no patient.
\<close>

definition analyze_community :: "graph \<Rightarrow> nat \<Rightarrow> node_id list \<Rightarrow> exn + community_stats option" where
  "analyze_community G i community =
     (case node_data G community of
        Inl e \<Rightarrow> Inl e
      | Inr ds \<Rightarrow>
          (let patients_in_comm = patients_of ds;
               sites_in_comm = sites_of ds
           in if length patients_in_comm = 0 then Inr None
              else
                (let community_dna_rates = map dna_rate patients_in_comm;
                     community_ages = List.map_filter age patients_in_comm;
                     community_appointments = map (\<lambda>p. real (total_appointments p)) patients_in_comm;
                     age_group_counts = Counter (map age_group patients_in_comm);
                     dominant = (case py_max snd age_group_counts of
                                   None \<Rightarrow> Unknown | Some kv \<Rightarrow> fst kv);
                     risk_counts = Counter (map risk_category patients_in_comm);
                     site_dna_rates = map site_dna_rate sites_in_comm
                 in case calculate_community_risk_score community_dna_rates risk_counts of
                      Inl e \<Rightarrow> Inl e
                    | Inr score \<Rightarrow>
                        Inr (Some \<lparr>community_id = i,
                                   comm_size = length community,
                                   patients_count = length patients_in_comm,
                                   sites_count = length sites_in_comm,
                                   avg_dna_rate = (if community_dna_rates \<noteq> [] then mean community_dna_rates else 0),
                                   median_dna_rate = (if community_dna_rates \<noteq> [] then median community_dna_rates else 0),
                                   std_dna_rate = (if community_dna_rates \<noteq> [] then std community_dna_rates else 0),
                                   avg_age = (if community_ages \<noteq> [] then Some (mean community_ages) else None),
                                   dominant_age_group = dominant,
                                   avg_appointments = (if community_appointments \<noteq> [] then mean community_appointments else 0),
                                   high_risk_patients = counter_get risk_counts High,
                                   medium_risk_patients = counter_get risk_counts Medium,
                                   low_risk_patients = counter_get risk_counts Low,
                                   avg_site_dna_rate = (if site_dna_rates \<noteq> [] then mean site_dna_rates else 0),
                                   risk_score = score\<rparr>))))"

fun community_rows :: "graph \<Rightarrow> nat \<Rightarrow> node_id list list \<Rightarrow> exn + community_stats list" where
  "community_rows G i [] = Inr []"
| "community_rows G i (community # rest) =
     (case analyze_community G i community of
        Inl e \<Rightarrow> Inl e
      | Inr row \<Rightarrow>
          (case community_rows G (Suc i) rest of
             Inl e \<Rightarrow> Inl e
           | Inr rows \<Rightarrow> Inr (case row of None \<Rightarrow> rows | Some r \<Rightarrow> r # rows)))"

text \<open>
  \<open>analyze_community_dna_patterns\<close>. A frame built from no row has no column, and
  \<open>sort_values('risk_score')\<close> raises \<open>KeyError\<close> on it. The rows are sorted by falling
  risk score; the order pandas gives rows of equal score is not modelled beyond that of
  a stable sort, and nothing below depends on it.
\<close>

definition analyze_community_dna_patterns :: "graph \<Rightarrow> community_result \<Rightarrow> exn + community_stats list" where
  "analyze_community_dna_patterns G comms =
     (case community_rows G 0 (communities comms) of
        Inl e \<Rightarrow> Inl e
      | Inr community_stats \<Rightarrow>
          if community_stats = [] then Inl (KeyError ''risk_score'')
          else Inr (sort_key (\<lambda>r. - risk_score r) community_stats))"

subsection \<open>Risk tiers\<close>

text \<open>
  pandas' \<open>Series.quantile(q)\<close> with its default linear interpolation between the two
  nearest order statistics; \<open>NaN\<close> (\<open>None\<close>) on an empty series. A comparison with
  \<open>NaN\<close> is false.
\<close>

definition quantile :: "real list \<Rightarrow> real \<Rightarrow> real option" where
  "quantile xs q =
     (if xs = [] then None
      else
        (let s = sort xs;
             h = real (length xs - 1) * q;
             lo = nat \<lfloor>h\<rfloor>;
             hi = min (lo + 1) (length xs - 1)
         in Some (s ! lo + (h - real lo) * (s ! hi - s ! lo))))"

definition ge_nan :: "real \<Rightarrow> real option \<Rightarrow> bool" where
  "ge_nan x t = (case t of None \<Rightarrow> False | Some y \<Rightarrow> x \<ge> y)"

definition le_nan :: "real \<Rightarrow> real option \<Rightarrow> bool" where
  "le_nan x t = (case t of None \<Rightarrow> False | Some y \<Rightarrow> x \<le> y)"

definition gt_nan :: "real \<Rightarrow> real option \<Rightarrow> bool" where
  "gt_nan x t = (case t of None \<Rightarrow> False | Some y \<Rightarrow> x > y)"

definition lt_nan :: "real \<Rightarrow> real option \<Rightarrow> bool" where
  "lt_nan x t = (case t of None \<Rightarrow> False | Some y \<Rightarrow> x < y)"

text \<open>The two local variables of \<open>identify_high_low_risk_communities\<close>.\<close>

definition high_threshold :: "community_stats list \<Rightarrow> bool \<Rightarrow> real option" where
  "high_threshold community_df use_percentiles =
     (if use_percentiles then quantile (map risk_score community_df) (75 / 100) else Some (3 / 10))"

definition low_threshold :: "community_stats list \<Rightarrow> bool \<Rightarrow> real option" where
  "low_threshold community_df use_percentiles =
     (if use_percentiles then quantile (map risk_score community_df) (25 / 100) else Some (1 / 10))"

record risk_communities =
  high_risk :: "community_stats list"
  medium_risk :: "community_stats list"
  low_risk :: "community_stats list"

definition identify_high_low_risk_communities :: "community_stats list \<Rightarrow> bool \<Rightarrow> risk_communities" where
  "identify_high_low_risk_communities community_df use_percentiles =
     (let high = high_threshold community_df use_percentiles;
          low = low_threshold community_df use_percentiles
      in \<lparr>high_risk = filter (\<lambda>c. ge_nan (risk_score c) high) community_df,
          medium_risk = filter (\<lambda>c. gt_nan (risk_score c) low \<and> lt_nan (risk_score c) high) community_df,
          low_risk = filter (\<lambda>c. le_nan (risk_score c) low) community_df\<rparr>)"

section \<open>The export document\<close>

text \<open>
  The part of the document \<open>export_for_d3js\<close> writes that carries the risk tiers: the
  metadata, the nodes with their community and tier, and the communities. A node keeps
  its graph attributes as they are (the export copies them under other names). The
  \<open>links\<close> and \<open>summary\<close> sections are left out; no property below reads them.
\<close>

record export_metadata =
  total_nodes :: nat
  total_edges :: nat
  total_communities :: nat
  high_risk_communities :: nat
  medium_risk_communities :: int
  low_risk_communities :: nat
  thresholds_high :: "real option"
  thresholds_low :: "real option"
  generated_at :: int
  algorithm :: string

record export_node =
  node_ident :: node_id
  node_attrs :: node
  node_community :: int
  node_risk_level :: risk_category

record export_community =
  ident :: nat
  community_patients :: nat
  community_sites :: nat
  export_avg_dna_rate :: real
  export_risk_score :: real
  dominant_age :: age_group
  export_high_risk_patients :: nat
  export_medium_risk_patients :: nat
  export_low_risk_patients :: nat
  risk_level :: risk_category

record export_data =
  metadata :: export_metadata
  export_nodes :: "export_node list"
  export_communities :: "export_community list"

text \<open>The \<open>if\<close>/\<open>elif\<close>/\<open>else\<close> chain that labels a risk score.\<close>

definition risk_level_of :: "real \<Rightarrow> real option \<Rightarrow> real option \<Rightarrow> risk_category" where
  "risk_level_of score high low =
     (if ge_nan score high then High else if le_nan score low then Low else Medium)"

text \<open>\<open>node_to_community\<close>: a later community overwrites an earlier one.\<close>

fun node_to_community :: "nat \<Rightarrow> node_id list list \<Rightarrow> (node_id \<rightharpoonup> nat) \<Rightarrow> (node_id \<rightharpoonup> nat)" where
  "node_to_community i [] m = m"
| "node_to_community i (community # rest) m =
     node_to_community (Suc i) rest (foldl (\<lambda>m node. m(node \<mapsto> i)) m community)"

definition export_node_of :: "community_stats list \<Rightarrow> real option \<Rightarrow> real option \<Rightarrow>
    (node_id \<rightharpoonup> nat) \<Rightarrow> node_id \<times> node \<Rightarrow> export_node" where
  "export_node_of community_df high low index nd =
     (case nd of (node_id, data) \<Rightarrow>
        \<lparr>node_ident = node_id,
         node_attrs = data,
         node_community = (case index node_id of None \<Rightarrow> - 1 | Some i \<Rightarrow> int i),
         node_risk_level =
           (case index node_id of
              None \<Rightarrow> Medium
            | Some i \<Rightarrow>
                (case filter (\<lambda>c. community_id c = i) community_df of
                   [] \<Rightarrow> Medium
                 | comm_data # _ \<Rightarrow> risk_level_of (risk_score comm_data) high low))\<rparr>)"

definition export_community_of :: "real option \<Rightarrow> real option \<Rightarrow> community_stats \<Rightarrow> export_community" where
  "export_community_of high low comm_data =
     \<lparr>ident = community_id comm_data,
      community_patients = patients_count comm_data,
      community_sites = sites_count comm_data,
      export_avg_dna_rate = avg_dna_rate comm_data,
      export_risk_score = risk_score comm_data,
      dominant_age = dominant_age_group comm_data,
      export_high_risk_patients = high_risk_patients comm_data,
      export_medium_risk_patients = medium_risk_patients comm_data,
      export_low_risk_patients = low_risk_patients comm_data,
      risk_level = risk_level_of (risk_score comm_data) high low\<rparr>"

text \<open>\<open>export_for_d3js\<close>; \<open>clock\<close> is the reading of \<open>datetime.now()\<close>.\<close>

definition export_for_d3js :: "graph \<Rightarrow> community_result \<Rightarrow> community_stats list \<Rightarrow> int \<Rightarrow> export_data" where
  "export_for_d3js G comms community_df clock =
     (let index = node_to_community 0 (communities comms) Map.empty;
          high = quantile (map risk_score community_df) (75 / 100);
          low = quantile (map risk_score community_df) (25 / 100);
          high_risk_count = length (filter (\<lambda>c. ge_nan (risk_score c) high) community_df);
          low_risk_count = length (filter (\<lambda>c. le_nan (risk_score c) low) community_df)
      in \<lparr>metadata =
            \<lparr>total_nodes = length (nodes G),
             total_edges = length (edges G),
             total_communities = length (communities comms),
             high_risk_communities = high_risk_count,
             medium_risk_communities = int (length community_df) - int high_risk_count - int low_risk_count,
             low_risk_communities = low_risk_count,
             thresholds_high = high,
             thresholds_low = low,
             generated_at = clock,
             algorithm = ''leiden''\<rparr>,
          export_nodes = map (export_node_of community_df high low index) (nodes G),
          export_communities = map (export_community_of high low) community_df\<rparr>)"

section \<open>The analysis run\<close>

text \<open>
  \<open>analysis_state\<close> of \<open>api.py\<close>, the global dictionary a run updates and the status
  endpoint reads.
\<close>

record analysis_state =
  state_graph :: "graph option"
  state_communities :: "community_result option"
  state_community_df :: "community_stats list option"
  state_network_data :: "net_row list option"
  state_risk_communities :: "risk_communities option"
  initialized :: bool
  last_updated :: "int option"
  analysis_progress :: string

text \<open>
  What a run can change: the state dictionary, the file \<open>output/network-export.json\<close>
  (\<open>None\<close> while it does not exist) and the state of numpy's global random generator,
  the one a draw without a \<open>random_state\<close> would read. The type \<open>'r\<close> is that of
  generator states.
\<close>

record 'r world =
  analysis_state :: analysis_state
  export_file :: "export_data option"
  np_random :: 'r

text \<open>
  What a run reads from outside: the CSV files through \<open>load_and_preprocess_data\<close>
  (\<open>Inl s\<close> when it raises its \<open>HTTPException\<close>, \<open>s\<close> being the text of the exception);
  numpy's seeding, \<open>seed_state s\<close> being the generator state that a seed \<open>s\<close> in range
  gives (that of \<open>RandomState(s)\<close>, and of the global generator after
  \<open>np.random.seed(s)\<close>); pandas' \<open>df.sample(n=...)\<close> drawing from a given generator
  state; cdlib if it is installed; and the clock at the two places it is read.
\<close>

record 'r env =
  load_and_preprocess_data :: "string + raw_row list"
  seed_state :: "int \<Rightarrow> 'r"
  pandas_sample :: "'r \<Rightarrow> nat \<Rightarrow> raw_row list \<Rightarrow> raw_row list"
  algorithms :: "cdlib option"
  export_time :: int
  update_time :: int

text \<open>
  \<open>sample_data_for_network\<close>. A frame within the cap is returned as it is, and nothing
  is seeded. Otherwise \<open>np.random.seed(seed)\<close> comes first: it raises \<open>ValueError\<close> for
  a seed outside \<open>0 .. 2**32 - 1\<close>, leaving the global generator alone, and else
  reseeds it. Then \<open>df.sample(n=max_records, random_state=seed)\<close> draws from a generator
  of its own, built from the seed; it does not read the global one.
\<close>

definition sample_data_for_network :: "(int \<Rightarrow> 'r) \<Rightarrow> ('r \<Rightarrow> nat \<Rightarrow> 'a list \<Rightarrow> 'a list) \<Rightarrow> 'a list \<Rightarrow>
    nat \<Rightarrow> int \<Rightarrow> 'r world \<Rightarrow> (exn + 'a list) \<times> 'r world" where
  "sample_data_for_network seeded sample df max_records seed w =
     (if length df \<le> max_records then (Inr df, w)
      else if 0 \<le> seed \<and> seed < 2 ^ 32
      then (Inr (sample (seeded seed) max_records df), w\<lparr>np_random := seeded seed\<rparr>)
      else (Inl (ValueError ''Seed must be between 0 and 2**32 - 1''), w))"

fun str_of_exn :: "exn \<Rightarrow> string" where
  "str_of_exn IndexError = ''single positional indexer is out-of-bounds''"
| "str_of_exn ZeroDivisionError = ''division by zero''"
| "str_of_exn (KeyError k) = [CHR 0x27] @ k @ [CHR 0x27]"
| "str_of_exn (ValueError s) = s"
| "str_of_exn (Exception s) = s"
| "str_of_exn (HTTPException s) = s"

datatype run_result = Returned bool | Raised exn

definition set_progress :: "string \<Rightarrow> 'r world \<Rightarrow> 'r world" where
  "set_progress p w = w\<lparr>analysis_state := (analysis_state w)\<lparr>analysis_progress := p\<rparr>\<rparr>"

text \<open>The \<open>except\<close> clause of \<open>run_analysis\<close>: record the error, then re-raise.\<close>

definition fail :: "'r world \<Rightarrow> exn \<Rightarrow> 'r world \<times> run_result" where
  "fail w e = (set_progress (''error: '' @ str_of_exn e) w, Raised e)"

text \<open>
  The body of \<open>run_analysis\<close>, with the sampling cap, the seed and the minimum
  community size as parameters.
\<close>

definition run_pipeline :: "'r env \<Rightarrow> nat \<Rightarrow> int \<Rightarrow> int \<Rightarrow> 'r world \<Rightarrow> 'r world \<times> run_result" where
  "run_pipeline env max_records seed min_community_size w =
     (case load_and_preprocess_data env of
        Inl s \<Rightarrow> fail (set_progress ''loading_data'' w) (HTTPException s)
      | Inr processed_df \<Rightarrow>
          (case sample_data_for_network (seed_state env) (pandas_sample env) processed_df
                  max_records seed (set_progress ''sampling_data'' w) of
             (Inl e, w') \<Rightarrow> fail w' e
           | (Inr sampled_df, w') \<Rightarrow>
               (let network_data = clean_for_network sampled_df
                in case create_enhanced_bipartite_graph network_data of
                     Inl e \<Rightarrow> fail (set_progress ''creating_graph'' w') e
                   | Inr G \<Rightarrow>
                       (case detect_communities_leiden (algorithms env) G min_community_size of
                          None \<Rightarrow>
                            fail (set_progress ''detecting_communities'' w')
                              (Exception ''Community detection failed - check dependencies'')
                        | Some comms \<Rightarrow>
                            (case analyze_community_dna_patterns G comms of
                               Inl e \<Rightarrow> fail (set_progress ''analyzing_communities'' w') e
                             | Inr community_df \<Rightarrow>
                                 (let risk = identify_high_low_risk_communities community_df True;
                                      export_data = export_for_d3js G comms community_df (export_time env)
                                  in (w'\<lparr>export_file := Some export_data,
                                         analysis_state :=
                                           \<lparr>state_graph = Some G,
                                            state_communities = Some comms,
                                            state_community_df = Some community_df,
                                            state_network_data = Some network_data,
                                            state_risk_communities = Some risk,
                                            initialized = True,
                                            last_updated = Some (update_time env),
                                            analysis_progress = ''completed''\<rparr>\<rparr>,
                                      Returned True)))))))"

text \<open>\<open>run_analysis\<close> of \<open>api.py\<close>: 20000 records, the default seed 42, communities of 10.\<close>

definition run_analysis :: "'r env \<Rightarrow> 'r world \<Rightarrow> 'r world \<times> run_result" where
  "run_analysis env w = run_pipeline env 20000 42 10 w"

text \<open>
  The state dictionary as the module creates it, and the world before any run, its
  global generator in some state \<open>r\<close>.
\<close>

definition initial_state :: analysis_state where
  "initial_state =
     \<lparr>state_graph = None, state_communities = None, state_community_df = None,
      state_network_data = None, state_risk_communities = None, initialized = False,
      last_updated = None, analysis_progress = ''not_started''\<rparr>"

definition initial_world :: "'r \<Rightarrow> 'r world" where
  "initial_world r = \<lparr>analysis_state = initial_state, export_file = None, np_random = r\<rparr>"

text \<open>
  The guard of the \<open>/initialize\<close> endpoint: whether a request in this state starts a run.
\<close>

datatype init_response = Already_in_progress string | Already_completed | Analysis_started

definition initialize_analysis :: "analysis_state \<Rightarrow> init_response" where
  "initialize_analysis st =
     (if analysis_progress st \<in> set [''loading_data'', ''sampling_data'', ''cleaning_data'',
           ''creating_graph'', ''detecting_communities'', ''analyzing_communities'',
           ''identifying_risk'', ''exporting_data'']
      then Already_in_progress (analysis_progress st)
      else if initialized st then Already_completed
      else Analysis_started)"

section \<open>Notions used in the statements and proofs\<close>

text \<open>
  What a run is observed by: how it ended and, when it returned, the cleaned rows it
  analysed, the community ids with their risk scores, the two cutoffs written to the
  export, and the three tiers.
\<close>

definition run_outputs :: "'r world \<times> run_result \<Rightarrow>
    run_result \<times> (net_row list \<times> (nat \<times> real) list \<times> real option \<times> real option \<times> risk_communities) option" where
  "run_outputs r =
     (snd r,
      case snd r of
        Raised e \<Rightarrow> None
      | Returned b \<Rightarrow>
          (case (state_network_data (analysis_state (fst r)),
                 state_community_df (analysis_state (fst r)),
                 state_risk_communities (analysis_state (fst r)),
                 export_file (fst r)) of
             (Some network_data, Some community_df, Some risk, Some export_data) \<Rightarrow>
               Some (network_data,
                     map (\<lambda>c. (community_id c, risk_score c)) community_df,
                     thresholds_high (metadata export_data),
                     thresholds_low (metadata export_data),
                     risk)
           | _ \<Rightarrow> None))"


text \<open>The key under which the edge of a row is stored, and the shape of all such keys.\<close>

definition edge_key :: "net_row \<Rightarrow> node_id \<times> node_id" where
  "edge_key row = (''P_'' @ PATIENT_KEY row, ''S_'' @ SITE_CODE_OF_TREATMENT row)"

definition oriented :: "((node_id \<times> node_id) \<times> edge_attrs) list \<Rightarrow> bool" where
  "oriented es = (\<forall>k \<in> fst ` set es. \<exists>p s. k = (''P_'' @ p, ''S_'' @ s))"

text \<open>The two branches of \<open>edge_step\<close> as functions of the row, and their iteration.\<close>

definition bump :: "net_row \<Rightarrow> edge_attrs \<Rightarrow> edge_attrs" where
  "bump row e = e\<lparr>weight := weight e + 1, dna_count := dna_count e + DNA_FLAG row\<rparr>"

definition new_edge :: "net_row \<Rightarrow> edge_attrs" where
  "new_edge row = \<lparr>weight = 1, dna_count = DNA_FLAG row,
                      appointment_date = APPOINTMENT_DATE row,
                      treatment_function = TREATMENT_FUNCTION_CODE row,
                      referring_org = REFERRING_ORGANISATION_CODE row,
                      outcome = OUTCOME_OF_ATTENDANCE row,
                      edge_dna_rate = None\<rparr>"

definition grow :: "nat \<Rightarrow> nat \<Rightarrow> edge_attrs \<Rightarrow> edge_attrs" where
  "grow n d e = e\<lparr>weight := weight e + n, dna_count := dna_count e + d\<rparr>"

definition with_rate :: "edge_attrs \<Rightarrow> edge_attrs" where
  "with_rate d = d\<lparr>edge_dna_rate := Some (real (dna_count d) / real (weight d))\<rparr>"

definition edge_ok :: "edge_attrs \<Rightarrow> bool" where
  "edge_ok e = (1 \<le> weight e \<and> dna_count e \<le> weight e)"

text \<open>
  Index \<open>i\<close> is the first largest community of a list: none is longer, and every
  earlier one is strictly shorter.
\<close>

definition first_largest :: "'a list list \<Rightarrow> nat \<Rightarrow> bool" where
  "first_largest large i =
     (i < length large \<and>
      list_all (\<lambda>j. length (large ! j) \<le> length (large ! i)) [0..<length large] \<and>
      list_all (\<lambda>j. length (large ! j) < length (large ! i)) [0..<i])"

subsection \<open>Example data\<close>

text \<open>A raw row with the given patient, site, attendance code and treatment function.\<close>

definition example_row :: "string \<Rightarrow> string \<Rightarrow> string \<Rightarrow> string \<Rightarrow> raw_row" where
  "example_row patient site attended treatment =
     \<lparr>raw_PATIENT_KEY = Some patient,
      raw_AGE = Some 40,
      raw_ORG_CODE_LOCAL_PATIENT_IDENTIFIER = None,
      raw_ATTENDED_OR_DID_NOT_ATTEND = Some attended,
      raw_OUTCOME_OF_ATTENDANCE = None,
      raw_POSTCODE_SECTOR_OF_USUAL_ADDRESS = None,
      raw_APPOINTMENT_DATE = None,
      raw_ORGANISATION_CODE_CODE_OF_PROVIDER = None,
      raw_SITE_CODE_OF_TREATMENT = Some site,
      raw_PROVIDER_LOCATION = None,
      raw_TREATMENT_FUNCTION_CODE = Some treatment,
      raw_REFERRING_ORGANISATION_CODE = None,
      raw_REFERRAL_REQUEST_RECEIVED_DATE = None\<rparr>"

text \<open>One patient seen twice at one site, the second visit missed, under two treatment functions.\<close>

definition two_visits :: "net_row list" where
  "two_visits = clean_for_network
     [example_row ''P1'' ''S1'' ''5'' ''100'', example_row ''P1'' ''S1'' ''3'' ''200'']"

text \<open>One patient with three appointments, one of them missed.\<close>

definition three_visits :: "net_row list" where
  "three_visits = clean_for_network
     [example_row ''P1'' ''S1'' ''5'' ''100'', example_row ''P1'' ''S2'' ''3'' ''100'',
      example_row ''P1'' ''S1'' ''6'' ''100'']"

text \<open>A cdlib whose Leiden partitioner returns the given communities, with modularity 0.\<close>

definition example_cdlib :: "node_id list list \<Rightarrow> cdlib" where
  "example_cdlib cs =
     \<lparr>leiden = (\<lambda>G. Inr cs), newman_girvan_modularity = (\<lambda>G c. Inr 0)\<rparr>"

definition empty_graph :: graph where
  "empty_graph = \<lparr>nodes = [], edges = []\<rparr>"

definition four_communities :: "node_id list list" where
  "four_communities = [[''P_a'', ''S_b''], [''P_c''], [''P_d'', ''S_e''], [''S_f'']]"

text \<open>
  A graph of three patients with the smoothed rates 0.1, 0.2 and 0.9 (categories Low,
  Medium and High) and one site.
\<close>

definition example_patient :: "real \<Rightarrow> risk_category \<Rightarrow> node" where
  "example_patient rate category =
     PatientNode \<lparr>age = Some 40, age_group = Adult, postcode = None, org_code = None,
                  total_appointments = 5, total_dnas = 0, dna_rate = rate, unique_sites = 1,
                  risk_category = category\<rparr>"

definition example_site :: node where
  "example_site =
     SiteNode \<lparr>provider_location = None, site_org_code = None, site_treatment_function = None,
               site_total_appointments = 15, site_total_dnas = 0, site_dna_rate = 1 / 20,
               unique_patients = 3\<rparr>"

definition scenario_graph :: graph where
  "scenario_graph =
     \<lparr>nodes = [(''P_1'', example_patient (1 / 10) Low), (''P_2'', example_patient (2 / 10) Medium),
               (''P_3'', example_patient (9 / 10) High), (''S_1'', example_site)],
      edges = []\<rparr>"

text \<open>Two partitions of \<open>scenario_graph\<close>: one patient per community, and all nodes in one.\<close>

definition three_singletons :: community_result where
  "three_singletons = \<lparr>communities = [[''P_1'', ''S_1''], [''P_2''], [''P_3'']], method_name = ''leiden_filtered''\<rparr>"

definition one_community :: community_result where
  "one_community = \<lparr>communities = [[''P_1'', ''P_2'', ''P_3'', ''S_1'']], method_name = ''leiden_filtered''\<rparr>"

text \<open>
  An environment whose files hold three rows and whose clock is given. Its generator
  states are numbers, a seed giving itself; its sampler takes the first rows of the
  frame from an even state and the last rows, last first, from an odd one. A world left
  behind by an earlier failed run, its global generator in state 7. A cdlib that puts
  patient P1 and site S1 in one community.
\<close>

definition example_env :: "cdlib option \<Rightarrow> int \<Rightarrow> nat env" where
  "example_env lib clock =
     \<lparr>load_and_preprocess_data =
        Inr [example_row ''P1'' ''S1'' ''5'' ''100'', example_row ''P1'' ''S1'' ''3'' ''200'',
             example_row ''P2'' ''S1'' ''5'' ''100''],
      seed_state = (\<lambda>seed. nat seed),
      pandas_sample = (\<lambda>r n df. take n (if even r then df else rev df)),
      algorithms = lib,
      export_time = clock,
      update_time = clock + 1\<rparr>"

definition other_world :: "nat world" where
  "other_world =
     \<lparr>analysis_state = initial_state\<lparr>analysis_progress := ''error: earlier failure''\<rparr>,
      export_file = None, np_random = 7\<rparr>"

definition pair_cdlib :: cdlib where
  "pair_cdlib = example_cdlib [[''P_P1'', ''S_S1'']]"

section \<open>Graph construction: basic facts\<close>

lemma set_unique_from: "set (unique_from seen xs) = set xs - set seen"
  by (induction xs arbitrary: seen) auto

lemma set_unique: "set (unique xs) = set xs"
  by (simp add: unique_def set_unique_from)


lemma patient_node_attrs_total:
  "p \<in> PATIENT_KEY ` set df \<Longrightarrow> \<exists>a. patient_node_attrs df p = Inr a"
proof -
  assume "p \<in> PATIENT_KEY ` set df"
  then have "filter (\<lambda>r. PATIENT_KEY r = p) df \<noteq> []"
    by (auto simp: filter_empty_conv)
  then show ?thesis
    by (auto simp: patient_node_attrs_def Let_def split: list.splits)
qed

lemma site_node_attrs_total:
  "s \<in> SITE_CODE_OF_TREATMENT ` set df \<Longrightarrow> \<exists>a. site_node_attrs df s = Inr a"
proof -
  assume "s \<in> SITE_CODE_OF_TREATMENT ` set df"
  then have "filter (\<lambda>r. SITE_CODE_OF_TREATMENT r = s) df \<noteq> []"
    by (auto simp: filter_empty_conv)
  then show ?thesis
    by (auto simp: site_node_attrs_def Let_def split: list.splits)
qed

lemma add_patient_nodes_total:
  "set ps \<subseteq> PATIENT_KEY ` set df \<Longrightarrow> \<exists>ns'. add_patient_nodes df ps ns = Inr ns'"
proof (induction ps arbitrary: ns)
  case Nil
  then show ?case by simp
next
  case (Cons p ps)
  then obtain a where "patient_node_attrs df p = Inr a"
    using patient_node_attrs_total[of p df] by auto
  then show ?case using Cons by simp
qed

lemma add_site_nodes_total:
  "set ss \<subseteq> SITE_CODE_OF_TREATMENT ` set df \<Longrightarrow> \<exists>ns'. add_site_nodes df ss ns = Inr ns'"
proof (induction ss arbitrary: ns)
  case Nil
  then show ?case by simp
next
  case (Cons s ss)
  then obtain a where "site_node_attrs df s = Inr a"
    using site_node_attrs_total[of s df] by auto
  then show ?case using Cons by simp
qed

lemma add_patient_nodes_lookup:
  "add_patient_nodes df ps ns = Inr ns' \<Longrightarrow>
   map_of ns' k =
     (if k \<in> (\<lambda>p. ''P_'' @ p) ` set ps
      then (case patient_node_attrs df (drop 2 k) of Inr a \<Rightarrow> Some (PatientNode a) | Inl e \<Rightarrow> None)
      else map_of ns k)"
proof (induction ps arbitrary: ns)
  case Nil
  then show ?case by simp
next
  case (Cons p ps)
  from Cons.prems obtain a where a: "patient_node_attrs df p = Inr a"
    and rest: "add_patient_nodes df ps (AList.update (''P_'' @ p) (PatientNode a) ns) = Inr ns'"
    by (auto split: sum.splits)
  show ?case
    using Cons.IH[OF rest] a by (auto simp: update_conv')
qed

lemma add_site_nodes_lookup:
  "add_site_nodes df ss ns = Inr ns' \<Longrightarrow>
   map_of ns' k =
     (if k \<in> (\<lambda>s. ''S_'' @ s) ` set ss
      then (case site_node_attrs df (drop 2 k) of Inr a \<Rightarrow> Some (SiteNode a) | Inl e \<Rightarrow> None)
      else map_of ns k)"
proof (induction ss arbitrary: ns)
  case Nil
  then show ?case by simp
next
  case (Cons s ss)
  from Cons.prems obtain a where a: "site_node_attrs df s = Inr a"
    and rest: "add_site_nodes df ss (AList.update (''S_'' @ s) (SiteNode a) ns) = Inr ns'"
    by (auto split: sum.splits)
  show ?case
    using Cons.IH[OF rest] a by (auto simp: update_conv')
qed

lemma oriented_no_reverse:
  "oriented es \<Longrightarrow> (''S_'' @ s, ''P_'' @ p) \<notin> fst ` set es"
  by (auto simp: oriented_def)

lemma has_edge_oriented:
  "oriented es \<Longrightarrow> has_edge es (''P_'' @ p) (''S_'' @ s) = (map_of es (''P_'' @ p, ''S_'' @ s) \<noteq> None)"
  using oriented_no_reverse[of es s p]
  by (auto simp: has_edge_def map_of_eq_None_iff)

lemma get_edge_oriented:
  assumes "oriented es"
  shows "get_edge es (''P_'' @ p) (''S_'' @ s) = map_of es (''P_'' @ p, ''S_'' @ s)"
proof -
  have "map_of es (''S_'' @ s, ''P_'' @ p) = None"
    using oriented_no_reverse[OF assms, of s p] by (simp only: map_of_eq_None_iff not_False_eq_True)
  then show ?thesis
    by (cases "map_of es (''P_'' @ p, ''S_'' @ s)") (simp_all add: get_edge_def)
qed

lemma fst_update_edge: "map fst (update_edge f u v es) = map fst es"
  by (induction es) auto

lemma map_of_update_edge:
  "(v, u) \<notin> fst ` set es \<Longrightarrow>
   map_of (update_edge f u v es) k = (if k = (u, v) then map_option f (map_of es k) else map_of es k)"
proof (induction es)
  case Nil
  then show ?case by simp
next
  case (Cons x es)
  obtain k' e where x: "x = (k', e)" by (cases x)
  from Cons.prems x have nk: "k' \<noteq> (v, u)" and rest: "(v, u) \<notin> fst ` set es"
    by auto
  show ?case
  proof (cases "k' = (u, v)")
    case True
    then show ?thesis using x by simp
  next
    case False
    then show ?thesis using x nk Cons.IH[OF rest] by (cases "k = (u, v)") auto
  qed
qed

lemma set_update_edge:
  "(k, d) \<in> set (update_edge f u v es) \<Longrightarrow> (k, d) \<in> set es \<or> (\<exists>e. (k, e) \<in> set es \<and> d = f e)"
proof (induction es)
  case Nil
  then show ?case by simp
next
  case (Cons x es)
  obtain k' e where x: "x = (k', e)" by (cases x)
  show ?case
  proof (cases "k' = (u, v) \<or> k' = (v, u)")
    case True
    then have "update_edge f u v (x # es) = (k', f e) # es" using x by simp
    then show ?thesis using Cons.prems x by auto
  next
    case False
    then have "update_edge f u v (x # es) = (k', e) # update_edge f u v es" using x by simp
    then show ?thesis using Cons.prems Cons.IH x by auto
  qed
qed

lemma map_of_edge_step:
  assumes "oriented es"
  shows "map_of (edge_step row es) k =
     (if k = edge_key row
      then Some (case map_of es k of None \<Rightarrow> new_edge row | Some e \<Rightarrow> bump row e)
      else map_of es k)"
proof (cases "has_edge es (''P_'' @ PATIENT_KEY row) (''S_'' @ SITE_CODE_OF_TREATMENT row)")
  case True
  then obtain e where e: "map_of es (edge_key row) = Some e"
    using has_edge_oriented[OF assms] by (auto simp: edge_key_def)
  show ?thesis
    using True e oriented_no_reverse[OF assms, of "SITE_CODE_OF_TREATMENT row" "PATIENT_KEY row"]
    by (simp add: edge_step_def Let_def map_of_update_edge edge_key_def bump_def)
next
  case False
  then have "map_of es (edge_key row) = None"
    using has_edge_oriented[OF assms] by (auto simp: edge_key_def)
  then show ?thesis
    using False
    by (auto simp: edge_step_def Let_def edge_key_def new_edge_def map_add_def split: option.splits)
qed

lemma oriented_edge_step: "oriented es \<Longrightarrow> oriented (edge_step row es)"
proof -
  assume o: "oriented es"
  have "fst ` set (edge_step row es) \<subseteq> insert (edge_key row) (fst ` set es)"
    using fst_update_edge[of _ "''P_'' @ PATIENT_KEY row" "''S_'' @ SITE_CODE_OF_TREATMENT row" es]
    by (auto simp: edge_step_def Let_def edge_key_def simp flip: set_map)
  then show ?thesis
    using o unfolding oriented_def edge_key_def by blast
qed

lemma oriented_add_edges: "oriented es \<Longrightarrow> oriented (add_edges rows es)"
  by (induction rows arbitrary: es) (auto simp: oriented_edge_step)

lemma distinct_edge_step:
  "oriented es \<Longrightarrow> distinct (map fst es) \<Longrightarrow> distinct (map fst (edge_step row es))"
  using has_edge_oriented[of es "PATIENT_KEY row" "SITE_CODE_OF_TREATMENT row"]
  by (auto simp: edge_step_def Let_def fst_update_edge map_of_eq_None_iff)

lemma distinct_add_edges:
  "oriented es \<Longrightarrow> distinct (map fst es) \<Longrightarrow> distinct (map fst (add_edges rows es))"
  by (induction rows arbitrary: es) (auto simp: oriented_edge_step distinct_edge_step)


lemma grow_bump: "grow n d (bump row e) = grow (Suc n) (DNA_FLAG row + d) e"
  by (simp add: grow_def bump_def)

lemma grow_0: "grow 0 0 e = e"
  by (simp add: grow_def)

lemma map_of_add_edges:
  "oriented es \<Longrightarrow>
   map_of (add_edges rows es) k =
     (let rs = filter (\<lambda>r. edge_key r = k) rows
      in case map_of es k of
           Some e \<Rightarrow> Some (grow (length rs) (sum_list (map DNA_FLAG rs)) e)
         | None \<Rightarrow>
             (case rs of
                [] \<Rightarrow> None
              | r # rs' \<Rightarrow> Some (grow (length rs') (sum_list (map DNA_FLAG rs')) (new_edge r))))"
proof (induction rows arbitrary: es)
  case Nil
  then show ?case by (simp add: grow_0 split: option.splits)
next
  case (Cons row rows)
  have o: "oriented (edge_step row es)" by (rule oriented_edge_step[OF Cons.prems])
  show ?case
  proof (cases "edge_key row = k")
    case True
    then show ?thesis
      using Cons.IH[OF o, of ] map_of_edge_step[OF Cons.prems, of row k]
      by (simp add: Let_def grow_bump split: option.splits)
  next
    case False
    then show ?thesis
      using Cons.IH[OF o] map_of_edge_step[OF Cons.prems, of row k]
      by (simp add: Let_def)
  qed
qed

lemma edge_step_preserves:
  assumes es: "list_all (\<lambda>(k, e). P e) es"
    and new: "P (new_edge row)"
    and upd: "\<And>e. P e \<Longrightarrow> P (bump row e)"
  shows "list_all (\<lambda>(k, e). P e) (edge_step row es)"
proof -
  have "P d" if "(k, d) \<in> set (edge_step row es)" for k d
  proof (cases "has_edge es (''P_'' @ PATIENT_KEY row) (''S_'' @ SITE_CODE_OF_TREATMENT row)")
    case True
    then have "(k, d) \<in> set (update_edge (bump row)
                (''P_'' @ PATIENT_KEY row) (''S_'' @ SITE_CODE_OF_TREATMENT row) es)"
      using that by (simp add: edge_step_def Let_def bump_def[abs_def])
    from set_update_edge[OF this] show ?thesis
      using es upd by (auto simp: list_all_iff)
  next
    case False
    then have "(k, d) \<in> set es \<or> d = new_edge row"
      using that by (auto simp: edge_step_def Let_def new_edge_def)
    then show ?thesis
      using es new by (auto simp: list_all_iff)
  qed
  then show ?thesis by (auto simp: list_all_iff)
qed

lemma add_edges_preserves:
  assumes "list_all (\<lambda>(k, e). P e) es"
    and "\<And>row. row \<in> set rows \<Longrightarrow> P (new_edge row)"
    and "\<And>row e. row \<in> set rows \<Longrightarrow> P e \<Longrightarrow> P (bump row e)"
  shows "list_all (\<lambda>(k, e). P e) (add_edges rows es)"
  using assms
proof (induction rows arbitrary: es)
  case Nil
  then show ?case by simp
next
  case (Cons row rows)
  have "list_all (\<lambda>(k, e). P e) (edge_step row es)"
    using Cons.prems by (intro edge_step_preserves) auto
  then show ?case
    using Cons.IH[of "edge_step row es"] Cons.prems by simp
qed

lemma weight_add_edges: "list_all (\<lambda>(k, e). weight e \<noteq> 0) (add_edges rows [])"
  by (rule add_edges_preserves) (simp_all add: new_edge_def bump_def)

lemma edge_ok_add_edges:
  assumes "list_all (\<lambda>r. DNA_FLAG r \<le> 1) rows"
  shows "list_all (\<lambda>(k, e). edge_ok e) (add_edges rows [])"
  using assms
  by (intro add_edges_preserves) (auto simp: new_edge_def bump_def edge_ok_def list_all_iff)

lemma set_edge_rates_ok:
  "list_all (\<lambda>(k, e). weight e \<noteq> 0) es \<Longrightarrow>
   set_edge_rates es = Inr (map (\<lambda>(k, d). (k, with_rate d)) es)"
  by (induction es) (auto simp: with_rate_def)

lemma clean_for_network_flags: "list_all (\<lambda>r. DNA_FLAG r \<le> 1) (clean_for_network df)"
  by (auto simp: clean_for_network_def List.map_filter_def list_all_iff clean_row_def Let_def
      split: option.splits)

lemma create_graph_total:
  shows "\<exists>ns. add_patient_nodes df (unique (map PATIENT_KEY df)) [] = Inr ns \<and>
          (\<exists>ns'. add_site_nodes df (unique (map SITE_CODE_OF_TREATMENT df)) ns = Inr ns' \<and>
            create_enhanced_bipartite_graph df =
              Inr \<lparr>nodes = ns', edges = map (\<lambda>(k, d). (k, with_rate d)) (add_edges df [])\<rparr>)"
proof -
  obtain ns where ns: "add_patient_nodes df (unique (map PATIENT_KEY df)) [] = Inr ns"
    using add_patient_nodes_total[of "unique (map PATIENT_KEY df)" df "[]"]
    by (auto simp: set_unique)
  obtain ns' where ns': "add_site_nodes df (unique (map SITE_CODE_OF_TREATMENT df)) ns = Inr ns'"
    using add_site_nodes_total[of "unique (map SITE_CODE_OF_TREATMENT df)" df ns]
    by (auto simp: set_unique)
  have "list_all (\<lambda>(k, e). weight e \<noteq> 0) (add_edges df [])"
    by (rule weight_add_edges)
  from set_edge_rates_ok[OF this] show ?thesis
    using ns ns' by (simp add: create_enhanced_bipartite_graph_def Let_def)
qed


lemma node_lookup_patient:
  assumes ns: "add_patient_nodes df (unique (map PATIENT_KEY df)) [] = Inr ns"
    and ns': "add_site_nodes df (unique (map SITE_CODE_OF_TREATMENT df)) ns = Inr ns'"
    and p: "p \<in> PATIENT_KEY ` set df"
  shows "\<exists>a. patient_node_attrs df p = Inr a \<and> map_of ns' (''P_'' @ p) = Some (PatientNode a)"
proof -
  obtain a where a: "patient_node_attrs df p = Inr a"
    using patient_node_attrs_total[OF p] by blast
  have "''P_'' @ p \<notin> (\<lambda>s. ''S_'' @ s) ` set (unique (map SITE_CODE_OF_TREATMENT df))"
    by auto
  then have "map_of ns' (''P_'' @ p) = map_of ns (''P_'' @ p)"
    using add_site_nodes_lookup[OF ns', of "''P_'' @ p"] by simp
  moreover have "''P_'' @ p \<in> (\<lambda>p. ''P_'' @ p) ` set (unique (map PATIENT_KEY df))"
    using p by (simp add: set_unique)
  then have "map_of ns (''P_'' @ p) = Some (PatientNode a)"
    using add_patient_nodes_lookup[OF ns, of "''P_'' @ p"] a by simp
  ultimately show ?thesis using a by simp
qed

lemma patient_node_attrs_fields:
  assumes "patient_node_attrs df p = Inr a"
  shows "total_appointments a = length (filter (\<lambda>r. PATIENT_KEY r = p) df)"
    and "total_dnas a = sum_list (map DNA_FLAG (filter (\<lambda>r. PATIENT_KEY r = p) df))"
    and "1 \<le> total_appointments a"
    and "dna_rate a = (real (total_dnas a) + 1) / (real (total_appointments a) + 5)"
    and "risk_category a = (if dna_rate a > 3 / 10 then High else if dna_rate a > 1 / 10 then Medium else Low)"
proof -
  define n where "n = length (filter (\<lambda>r. PATIENT_KEY r = p) df)"
  define d where "d = sum_list (map DNA_FLAG (filter (\<lambda>r. PATIENT_KEY r = p) df))"
  obtain x xs where pd: "filter (\<lambda>r. PATIENT_KEY r = p) df = x # xs"
    using assms by (cases "filter (\<lambda>r. PATIENT_KEY r = p) df") (simp_all add: patient_node_attrs_def)
  have n1: "1 \<le> n" by (simp add: n_def pd)
  have "Inr a = patient_node_attrs df p" using assms by simp
  also have "\<dots> = Inr \<lparr>age = AGE x, age_group = classify_age (AGE x),
            postcode = POSTCODE_SECTOR_OF_USUAL_ADDRESS x,
            org_code = ORG_CODE_LOCAL_PATIENT_IDENTIFIER x,
            total_appointments = n, total_dnas = d,
            dna_rate = (real d + 1) / (real n + 5),
            unique_sites = length (unique (map SITE_CODE_OF_TREATMENT (x # xs))),
            risk_category = (if (real d + 1) / (real n + 5) > 3 / 10 then High
                             else if (real d + 1) / (real n + 5) > 1 / 10 then Medium else Low)\<rparr>"
    unfolding patient_node_attrs_def Let_def n_def d_def pd list.case ..
  finally have a: "a = \<lparr>age = AGE x, age_group = classify_age (AGE x),
            postcode = POSTCODE_SECTOR_OF_USUAL_ADDRESS x,
            org_code = ORG_CODE_LOCAL_PATIENT_IDENTIFIER x,
            total_appointments = n, total_dnas = d,
            dna_rate = (real d + 1) / (real n + 5),
            unique_sites = length (unique (map SITE_CODE_OF_TREATMENT (x # xs))),
            risk_category = (if (real d + 1) / (real n + 5) > 3 / 10 then High
                             else if (real d + 1) / (real n + 5) > 1 / 10 then Medium else Low)\<rparr>"
    by simp
  show "total_appointments a = length (filter (\<lambda>r. PATIENT_KEY r = p) df)"
    by (simp add: a n_def)
  show "total_dnas a = sum_list (map DNA_FLAG (filter (\<lambda>r. PATIENT_KEY r = p) df))"
    by (simp add: a d_def)
  show "1 \<le> total_appointments a" using n1 by (simp add: a)
  show "dna_rate a = (real (total_dnas a) + 1) / (real (total_appointments a) + 5)"
    by (simp add: a)
  show "risk_category a = (if dna_rate a > 3 / 10 then High else if dna_rate a > 1 / 10 then Medium else Low)"
    by (simp add: a)
qed

lemmas example_defs = two_visits_def three_visits_def clean_for_network_def List.map_filter_def
  clean_row_def example_row_def

lemma oriented_Nil: "oriented []"
  by (simp add: oriented_def)

lemma oriented_with_rate:
  "oriented es \<Longrightarrow> oriented (map (\<lambda>(k, d). (k, with_rate d)) es)"
  by (force simp: oriented_def)

lemma map_of_with_rate:
  "map_of (map (\<lambda>(k, d). (k, with_rate d)) es) k = map_option with_rate (map_of es k)"
  by (induction es) auto

lemma fst_neq_absent: "k \<notin> fst ` set es \<Longrightarrow> x \<in> set es \<Longrightarrow> fst x \<noteq> k"
  by auto

lemma disj_absorb_neq: "a \<noteq> c \<Longrightarrow> (a = b \<or> a = c) = (a = b)"
  by auto

lemma count_key_distinct:
  "distinct (map fst es) \<Longrightarrow> k \<in> fst ` set es \<Longrightarrow> length (filter (\<lambda>x. fst x = k) es) = 1"
proof (induction es)
  case Nil
  then show ?case by simp
next
  case (Cons x es)
  show ?case
  proof (cases "fst x = k")
    case True
    then have "k \<notin> fst ` set es" using Cons.prems(1) by auto
    then have "filter (\<lambda>x. fst x = k) es = []" by (auto simp: filter_empty_conv)
    then show ?thesis using True by simp
  next
    case False
    then show ?thesis using Cons by auto
  qed
qed

lemma edges_of_pair:
  assumes rows: "filter (\<lambda>r. PATIENT_KEY r = p \<and> SITE_CODE_OF_TREATMENT r = s) df = first # later"
  shows "map_of (add_edges df []) (''P_'' @ p, ''S_'' @ s) =
           Some (grow (length later) (sum_list (map DNA_FLAG later)) (new_edge first))"
proof -
  have "filter (\<lambda>r. edge_key r = (''P_'' @ p, ''S_'' @ s)) df = first # later"
    using rows by (simp add: edge_key_def)
  then show ?thesis
    using map_of_add_edges[OF oriented_Nil, of df "(''P_'' @ p, ''S_'' @ s)"]
    by (simp add: Let_def)
qed

section \<open>The size filter: basic facts\<close>

lemma split_by_size_eq:
  "split_by_size m cs large small =
     (large @ filter (\<lambda>c. m \<le> int (length c)) cs,
      small @ concat (filter (\<lambda>c. \<not> m \<le> int (length c)) cs))"
  by (induction cs arbitrary: large small) auto

lemma max_from_upt:
  assumes "b < lo" "lo \<le> n"
    and "\<forall>j<lo. key j \<le> key b" and "\<forall>j<b. key j < key b"
  shows "max_from key b [lo..<n] < n \<and>
         (\<forall>j<n. key j \<le> key (max_from key b [lo..<n])) \<and>
         (\<forall>j<max_from key b [lo..<n]. key j < key (max_from key b [lo..<n]))"
  using assms
proof (induction "n - lo" arbitrary: lo b)
  case 0
  then show ?case by auto
next
  case (Suc d)
  then have lt: "lo < n" by simp
  then have upt: "[lo..<n] = lo # [Suc lo..<n]" by (simp add: upt_conv_Cons)
  show ?case
  proof (cases "key lo > key b")
    case True
    have "\<forall>j<Suc lo. key j \<le> key lo"
      using Suc.prems(3) True by (auto simp: less_Suc_eq intro: order_trans less_imp_le)
    moreover have "\<forall>j<lo. key j < key lo"
      using Suc.prems(3) True by (auto intro: le_less_trans)
    ultimately show ?thesis
      using Suc.hyps(1)[of "Suc lo" lo] Suc.hyps(2) lt True by (simp add: upt)
  next
    case False
    have "\<forall>j<Suc lo. key j \<le> key b"
      using Suc.prems(3) False by (auto simp: less_Suc_eq)
    then show ?thesis
      using Suc.hyps(1)[of "Suc lo" b] Suc.hyps(2) Suc.prems lt False by (simp add: upt)
  qed
qed

lemma py_max_index:
  assumes "large \<noteq> []"
  shows "\<exists>i. py_max (\<lambda>i. length (large ! i)) [0..<length large] = Some i \<and> first_largest large i"
proof -
  have n: "0 < length large" using assms by simp
  then have upt: "[0..<length large] = 0 # [1..<length large]" by (simp add: upt_conv_Cons)
  have "max_from (\<lambda>i. length (large ! i)) 0 [1..<length large] < length large \<and>
        (\<forall>j<length large. length (large ! j) \<le> length (large ! max_from (\<lambda>i. length (large ! i)) 0 [1..<length large])) \<and>
        (\<forall>j<max_from (\<lambda>i. length (large ! i)) 0 [1..<length large].
            length (large ! j) < length (large ! max_from (\<lambda>i. length (large ! i)) 0 [1..<length large]))"
    using max_from_upt[of 0 1 "length large" "\<lambda>i. length (large ! i)"] n by simp
  then show ?thesis
    using n by (auto simp: py_max_def upt first_largest_def list_all_iff)
qed

lemma merge_into_largest_ok:
  assumes "large \<noteq> []"
  shows "\<exists>i. first_largest large i \<and>
           merge_into_largest large small = Inr (large[i := large ! i @ small])"
  using py_max_index[OF assms] by (auto simp: merge_into_largest_def)


section \<open>Properties of graph construction\<close>

text \<open>
  Claim C3. For every patient that occurs in the rows, graph construction succeeds and
  stores a patient node whose \<open>total_appointments\<close> is the number \<open>a\<close> of the patient's
  rows (at least 1) and whose \<open>total_dnas\<close> is the sum \<open>d\<close> of their flags; when
  \<open>d \<le> a\<close>, the stored \<open>dna_rate\<close> is \<open>(d + 1) / (a + 5)\<close>, strictly between 0 and 1.
\<close>

theorem C3_patient_dna_rate:
  assumes "p \<in> PATIENT_KEY ` set df"
    and "sum_list (map DNA_FLAG (filter (\<lambda>r. PATIENT_KEY r = p) df))
           \<le> length (filter (\<lambda>r. PATIENT_KEY r = p) df)"
  shows "\<exists>G a. create_enhanced_bipartite_graph df = Inr G \<and>
           map_of (nodes G) (''P_'' @ p) = Some (PatientNode a) \<and>
           total_appointments a = length (filter (\<lambda>r. PATIENT_KEY r = p) df) \<and>
           total_dnas a = sum_list (map DNA_FLAG (filter (\<lambda>r. PATIENT_KEY r = p) df)) \<and>
           1 \<le> total_appointments a \<and>
           dna_rate a = (real (total_dnas a) + 1) / (real (total_appointments a) + 5) \<and>
           0 < dna_rate a \<and> dna_rate a < 1"
proof -
  obtain ns ns' where ns: "add_patient_nodes df (unique (map PATIENT_KEY df)) [] = Inr ns"
    and ns': "add_site_nodes df (unique (map SITE_CODE_OF_TREATMENT df)) ns = Inr ns'"
    and G: "create_enhanced_bipartite_graph df =
              Inr \<lparr>nodes = ns', edges = map (\<lambda>(k, d). (k, with_rate d)) (add_edges df [])\<rparr>"
    using create_graph_total[of df] by blast
  obtain a where a: "patient_node_attrs df p = Inr a"
    and look: "map_of ns' (''P_'' @ p) = Some (PatientNode a)"
    using node_lookup_patient[OF ns ns' assms(1)] by blast
  note f = patient_node_attrs_fields[OF a]
  have le: "total_dnas a \<le> total_appointments a"
    using assms(2) f(1) f(2) by simp
  have "0 < dna_rate a" unfolding f(4) by (simp add: add_pos_nonneg)
  moreover have "dna_rate a < 1" unfolding f(4) using le by simp
  ultimately show ?thesis
    using G look f by simp
qed

text \<open>The patient of \<open>two_visits\<close>: two appointments, one missed, rate 2/7.\<close>

theorem C3_patient_dna_rate_witness:
  "\<exists>G a. create_enhanced_bipartite_graph two_visits = Inr G \<and>
      map_of (nodes G) ''P_P1'' = Some (PatientNode a) \<and>
      total_appointments a = 2 \<and> total_dnas a = 1 \<and>
      dna_rate a = 2 / 7 \<and> 0 < dna_rate a \<and> dna_rate a < 1"
proof -
  have p: "''P1'' \<in> PATIENT_KEY ` set two_visits"
    by (simp add: example_defs)
  have n: "length (filter (\<lambda>r. PATIENT_KEY r = ''P1'') two_visits) = 2"
    by (simp add: example_defs)
  have d: "sum_list (map DNA_FLAG (filter (\<lambda>r. PATIENT_KEY r = ''P1'') two_visits)) = 1"
    by (simp add: example_defs)
  from C3_patient_dna_rate[OF p] n d
  obtain G a where "create_enhanced_bipartite_graph two_visits = Inr G"
    "map_of (nodes G) (''P_'' @ ''P1'') = Some (PatientNode a)"
    "total_appointments a = 2" "total_dnas a = 1"
    "dna_rate a = (real (total_dnas a) + 1) / (real (total_appointments a) + 5)"
    "0 < dna_rate a" "dna_rate a < 1"
    by auto
  then show ?thesis by (intro exI[of _ G] exI[of _ a]) simp
qed

text \<open>
  Claim C7. The stored \<open>risk_category\<close> of every patient is read off the smoothed
  \<open>dna_rate\<close>: High exactly when it exceeds 0.3, Medium exactly when it lies in
  (0.1, 0.3], Low exactly when it is at most 0.1. A patient with 3 appointments and 1 DNA
  has rate 0.25 and category Medium.
\<close>

theorem C7_risk_category_thresholds:
  assumes "p \<in> PATIENT_KEY ` set df"
  shows "\<exists>G a. create_enhanced_bipartite_graph df = Inr G \<and>
           map_of (nodes G) (''P_'' @ p) = Some (PatientNode a) \<and>
           total_appointments a = length (filter (\<lambda>r. PATIENT_KEY r = p) df) \<and>
           total_dnas a = sum_list (map DNA_FLAG (filter (\<lambda>r. PATIENT_KEY r = p) df)) \<and>
           dna_rate a = (real (total_dnas a) + 1) / (real (total_appointments a) + 5) \<and>
           (risk_category a = High) = (dna_rate a > 3 / 10) \<and>
           (risk_category a = Medium) = (1 / 10 < dna_rate a \<and> dna_rate a \<le> 3 / 10) \<and>
           (risk_category a = Low) = (dna_rate a \<le> 1 / 10) \<and>
           (total_appointments a = 3 \<and> total_dnas a = 1 \<longrightarrow>
              dna_rate a = 25 / 100 \<and> risk_category a = Medium)"
proof -
  obtain ns ns' where ns: "add_patient_nodes df (unique (map PATIENT_KEY df)) [] = Inr ns"
    and ns': "add_site_nodes df (unique (map SITE_CODE_OF_TREATMENT df)) ns = Inr ns'"
    and G: "create_enhanced_bipartite_graph df =
              Inr \<lparr>nodes = ns', edges = map (\<lambda>(k, d). (k, with_rate d)) (add_edges df [])\<rparr>"
    using create_graph_total[of df] by blast
  obtain a where a: "patient_node_attrs df p = Inr a"
    and look: "map_of ns' (''P_'' @ p) = Some (PatientNode a)"
    using node_lookup_patient[OF ns ns' assms(1)] by blast
  note f = patient_node_attrs_fields[OF a]
  have hi: "(risk_category a = High) = (dna_rate a > 3 / 10)"
    by (simp add: f(5))
  have me: "(risk_category a = Medium) = (1 / 10 < dna_rate a \<and> dna_rate a \<le> 3 / 10)"
    by (auto simp: f(5))
  have lo: "(risk_category a = Low) = (dna_rate a \<le> 1 / 10)"
    by (auto simp: f(5))
  have sc: "dna_rate a = 25 / 100 \<and> risk_category a = Medium"
    if "total_appointments a = 3 \<and> total_dnas a = 1"
  proof -
    have "dna_rate a = 25 / 100" using f(4) that by simp
    then show ?thesis using me by simp
  qed
  show ?thesis
    using G look f(1,2,4) hi me lo sc by simp
qed

text \<open>
  The patient of \<open>three_visits\<close>: the smoothed rate 0.25 gives Medium, although the raw
  proportion 1/3 exceeds 0.3.
\<close>

theorem C7_risk_category_thresholds_witness:
  "\<exists>G a. create_enhanced_bipartite_graph three_visits = Inr G \<and>
      map_of (nodes G) ''P_P1'' = Some (PatientNode a) \<and>
      total_appointments a = 3 \<and> total_dnas a = 1 \<and>
      dna_rate a = 25 / 100 \<and> risk_category a = Medium \<and>
      real (total_dnas a) / real (total_appointments a) > 3 / 10"
proof -
  have p: "''P1'' \<in> PATIENT_KEY ` set three_visits"
    by (simp add: example_defs)
  have n: "length (filter (\<lambda>r. PATIENT_KEY r = ''P1'') three_visits) = 3"
    by (simp add: example_defs)
  have d: "sum_list (map DNA_FLAG (filter (\<lambda>r. PATIENT_KEY r = ''P1'') three_visits)) = 1"
    by (simp add: example_defs)
  from C7_risk_category_thresholds[OF p] n d
  obtain G a where "create_enhanced_bipartite_graph three_visits = Inr G"
    "map_of (nodes G) (''P_'' @ ''P1'') = Some (PatientNode a)"
    "total_appointments a = 3" "total_dnas a = 1"
    "dna_rate a = 25 / 100" "risk_category a = Medium"
    by auto
  then show ?thesis by (intro exI[of _ G] exI[of _ a]) simp
qed

text \<open>
  Claim C10. Built from cleaned rows, the graph exists and every edge has
  \<open>weight \<ge> 1\<close> and \<open>dna_count \<le> weight\<close>; its \<open>dna_rate\<close> is the quotient of the two,
  a number in [0, 1], and the division never meets a zero weight.
\<close>

theorem C10_edge_weight_and_rate:
  "\<exists>G. create_enhanced_bipartite_graph (clean_for_network raw) = Inr G \<and>
     (\<forall>(k, e) \<in> set (edges G).
        1 \<le> weight e \<and> dna_count e \<le> weight e \<and>
        edge_dna_rate e = Some (real (dna_count e) / real (weight e)) \<and>
        0 \<le> real (dna_count e) / real (weight e) \<and>
        real (dna_count e) / real (weight e) \<le> 1)"
proof -
  let ?df = "clean_for_network raw"
  let ?es = "add_edges ?df []"
  obtain ns' where G: "create_enhanced_bipartite_graph ?df =
      Inr \<lparr>nodes = ns', edges = map (\<lambda>(k, d). (k, with_rate d)) ?es\<rparr>"
    using create_graph_total[of ?df] by blast
  have ok: "list_all (\<lambda>(k, e). edge_ok e) ?es"
    by (rule edge_ok_add_edges[OF clean_for_network_flags])
  have "1 \<le> weight (with_rate d) \<and> dna_count (with_rate d) \<le> weight (with_rate d) \<and>
        edge_dna_rate (with_rate d) = Some (real (dna_count (with_rate d)) / real (weight (with_rate d))) \<and>
        0 \<le> real (dna_count (with_rate d)) / real (weight (with_rate d)) \<and>
        real (dna_count (with_rate d)) / real (weight (with_rate d)) \<le> 1"
    if "(k, d) \<in> set ?es" for k d
  proof -
    have "edge_ok d" using ok that by (auto simp: list_all_iff)
    then show ?thesis by (simp add: edge_ok_def with_rate_def)
  qed
  then show ?thesis using G by auto
qed

text \<open>The edge of \<open>two_visits\<close>: weight 2, one DNA, rate 1/2.\<close>

theorem C10_edge_weight_and_rate_witness:
  "\<exists>G e. create_enhanced_bipartite_graph
            (clean_for_network [example_row ''P1'' ''S1'' ''5'' ''100'', example_row ''P1'' ''S1'' ''3'' ''200'']) = Inr G \<and>
      get_edge (edges G) ''P_P1'' ''S_S1'' = Some e \<and>
      weight e = 2 \<and> dna_count e = 1 \<and> edge_dna_rate e = Some (1 / 2)"
proof -
  let ?raw = "[example_row ''P1'' ''S1'' ''5'' ''100'', example_row ''P1'' ''S1'' ''3'' ''200'']"
  from C10_edge_weight_and_rate[of ?raw]
  obtain G where G: "create_enhanced_bipartite_graph (clean_for_network ?raw) = Inr G"
    and all: "\<forall>(k, e) \<in> set (edges G).
        1 \<le> weight e \<and> dna_count e \<le> weight e \<and>
        edge_dna_rate e = Some (real (dna_count e) / real (weight e)) \<and>
        0 \<le> real (dna_count e) / real (weight e) \<and>
        real (dna_count e) / real (weight e) \<le> 1"
    by blast
  have ev: "(case create_enhanced_bipartite_graph (clean_for_network ?raw) of
      Inl x \<Rightarrow> None
    | Inr G \<Rightarrow> map_option (\<lambda>e. (weight e, dna_count e)) (map_of (edges G) (''P_P1'', ''S_S1'')))
     = Some (2, 1)"
    by (simp add: example_defs create_enhanced_bipartite_graph_def unique_def patient_node_attrs_def
      site_node_attrs_def edge_step_def has_edge_def Let_def)
  then obtain e where e: "map_of (edges G) (''P_P1'', ''S_S1'') = Some e" "weight e = 2" "dna_count e = 1"
    using G by auto
  then have "((''P_P1'', ''S_S1''), e) \<in> set (edges G)"
    by (auto dest: map_of_SomeD)
  with all have "edge_dna_rate e = Some (real (dna_count e) / real (weight e))"
    by auto
  then have "edge_dna_rate e = Some (1 / 2)" using e by simp
  moreover have "get_edge (edges G) ''P_P1'' ''S_S1'' = Some e"
    using e by (simp add: get_edge_def)
  ultimately show ?thesis using G e by (intro exI[of _ G] exI[of _ e]) simp
qed

text \<open>
  Claim C1, as the code has it. For every (patient, site) pair with at least one row
  there is exactly one edge; its \<open>weight\<close> is the number of rows of the pair, its
  \<open>dna_count\<close> the sum of their flags, and its \<open>appointment_date\<close>,
  \<open>treatment_function\<close>, \<open>referring_org\<close> and \<open>outcome\<close> are those of the first row
  processed for the pair: later rows change the two counters only.
\<close>

theorem C1_edge_metadata_from_first_row:
  assumes rows: "filter (\<lambda>r. PATIENT_KEY r = p \<and> SITE_CODE_OF_TREATMENT r = s) df = first # later"
  shows "\<exists>G e. create_enhanced_bipartite_graph df = Inr G \<and>
           get_edge (edges G) (''P_'' @ p) (''S_'' @ s) = Some e \<and>
           length (filter (\<lambda>x. fst x = (''P_'' @ p, ''S_'' @ s) \<or> fst x = (''S_'' @ s, ''P_'' @ p)) (edges G)) = 1 \<and>
           weight e = Suc (length later) \<and>
           dna_count e = DNA_FLAG first + sum_list (map DNA_FLAG later) \<and>
           appointment_date e = APPOINTMENT_DATE first \<and>
           treatment_function e = TREATMENT_FUNCTION_CODE first \<and>
           referring_org e = REFERRING_ORGANISATION_CODE first \<and>
           outcome e = OUTCOME_OF_ATTENDANCE first"
proof -
  let ?es = "add_edges df []"
  let ?fs = "map (\<lambda>(k, d). (k, with_rate d)) ?es"
  let ?k = "(''P_'' @ p, ''S_'' @ s)"
  define e where "e = with_rate (grow (length later) (sum_list (map DNA_FLAG later)) (new_edge first))"
  obtain ns' where G: "create_enhanced_bipartite_graph df = Inr \<lparr>nodes = ns', edges = ?fs\<rparr>"
    using create_graph_total[of df] by blast
  have o: "oriented ?es" by (rule oriented_add_edges[OF oriented_Nil])
  have o': "oriented ?fs" by (rule oriented_with_rate[OF o])
  have look: "map_of ?fs ?k = Some e"
    unfolding map_of_with_rate edges_of_pair[OF rows] e_def by (rule option.map)
  have get: "get_edge ?fs (''P_'' @ p) (''S_'' @ s) = Some e"
    unfolding get_edge_oriented[OF o'] by (rule look)
  have d: "distinct (map fst ?fs)"
    using distinct_add_edges[OF oriented_Nil, of df] by (simp add: comp_def case_prod_unfold)
  have mem: "?k \<in> fst ` set ?fs"
    using look by (metis domI dom_map_of_conv_image_fst)
  have nr: "(''S_'' @ s, ''P_'' @ p) \<notin> fst ` set ?fs"
    by (rule oriented_no_reverse[OF o'])
  have "filter (\<lambda>x. fst x = ?k \<or> fst x = (''S_'' @ s, ''P_'' @ p)) ?fs = filter (\<lambda>x. fst x = ?k) ?fs"
  proof (rule filter_cong[OF refl])
    fix x assume "x \<in> set ?fs"
    then have "fst x \<noteq> (''S_'' @ s, ''P_'' @ p)" by (rule fst_neq_absent[OF nr])
    then show "(fst x = ?k \<or> fst x = (''S_'' @ s, ''P_'' @ p)) = (fst x = ?k)"
      by (rule disj_absorb_neq)
  qed
  then have one: "length (filter (\<lambda>x. fst x = ?k \<or> fst x = (''S_'' @ s, ''P_'' @ p)) ?fs) = 1"
    using count_key_distinct[OF d mem] by simp
  have fields: "weight e = Suc (length later)"
    "dna_count e = DNA_FLAG first + sum_list (map DNA_FLAG later)"
    "appointment_date e = APPOINTMENT_DATE first"
    "treatment_function e = TREATMENT_FUNCTION_CODE first"
    "referring_org e = REFERRING_ORGANISATION_CODE first"
    "outcome e = OUTCOME_OF_ATTENDANCE first"
    by (simp_all add: e_def with_rate_def grow_def new_edge_def)
  show ?thesis
    using G get one fields by simp
qed

text \<open>The edge of \<open>two_visits\<close> carries the treatment function of the first visit.\<close>

theorem C1_edge_metadata_from_first_row_witness:
  "\<exists>G e. create_enhanced_bipartite_graph two_visits = Inr G \<and>
      get_edge (edges G) ''P_P1'' ''S_S1'' = Some e \<and>
      weight e = 2 \<and> dna_count e = 1 \<and> treatment_function e = Some ''100''"
proof -
  have rows: "filter (\<lambda>r. PATIENT_KEY r = ''P1'' \<and> SITE_CODE_OF_TREATMENT r = ''S1'') two_visits =
      [the (clean_row (example_row ''P1'' ''S1'' ''5'' ''100'')),
       the (clean_row (example_row ''P1'' ''S1'' ''3'' ''200''))]"
    by (simp add: example_defs)
  from C1_edge_metadata_from_first_row[OF rows]
  obtain G e where "create_enhanced_bipartite_graph two_visits = Inr G"
    "get_edge (edges G) (''P_'' @ ''P1'') (''S_'' @ ''S1'') = Some e"
    "weight e = 2" "dna_count e = 1" "treatment_function e = Some ''100''"
    by (auto simp: example_defs)
  then show ?thesis by (intro exI[of _ G] exI[of _ e]) simp
qed

text \<open>
  Claim C1 as stated fails: after the two rows of \<open>two_visits\<close> the edge between P1 and
  S1 has the treatment function 100 of the first row, not the 200 of the last row
  processed for that pair.
\<close>

theorem C1_last_row_counterexample:
  "(case create_enhanced_bipartite_graph two_visits of
      Inl x \<Rightarrow> None
    | Inr G \<Rightarrow> map_option treatment_function (get_edge (edges G) ''P_P1'' ''S_S1''))
     = Some (Some ''100'') \<and>
   PATIENT_KEY (last two_visits) = ''P1'' \<and>
   SITE_CODE_OF_TREATMENT (last two_visits) = ''S1'' \<and>
   TREATMENT_FUNCTION_CODE (last two_visits) = Some ''200''"
  by (simp add: example_defs create_enhanced_bipartite_graph_def unique_def patient_node_attrs_def
      site_node_attrs_def edge_step_def has_edge_def get_edge_def Let_def)

section \<open>Properties of the size filter\<close>

lemma split_by_size_start:
  "split_by_size m cs [] [] =
     (filter (\<lambda>c. m \<le> int (length c)) cs, concat (filter (\<lambda>c. \<not> m \<le> int (length c)) cs))"
  by (simp add: split_by_size_eq)

lemma first_largest_example:
  "first_largest [[''P_a'', ''S_b''], [''P_d'', ''S_e'']] i \<Longrightarrow> i = 0"
  by (cases i) (auto simp: first_largest_def)

text \<open>
  Claim C2, as the code has it. Let \<open>large\<close> be the communities of at least \<open>m\<close> nodes,
  in output order, and \<open>small\<close> the nodes of all the others. Both filters keep every
  community of \<open>large\<close>; when \<open>large\<close> is not empty, the nodes of \<open>small\<close> are appended
  to its first largest community. When \<open>large\<close> is empty, \<open>filter_communities_by_size\<close>
  returns the one community \<open>small\<close> if it has at least \<open>m\<close> nodes and no community
  otherwise; the Leiden wrapper, given a partition of at least one community, returns
  no community when \<open>small\<close> has fewer than \<open>m\<close> nodes. Neither reports a failure.
\<close>

theorem C2_size_filter:
  "(let large = filter (\<lambda>c. m \<le> int (length c)) cs;
        small = concat (filter (\<lambda>c. \<not> m \<le> int (length c)) cs)
    in (\<exists>res. filter_communities_by_size \<lparr>communities = cs, method_name = name\<rparr> m = Inr res \<and>
          method_name res = ''filtered_'' @ name \<and>
          (if large \<noteq> []
           then (if small = [] then communities res = large
                 else (\<exists>i. first_largest large i \<and> communities res = large[i := large ! i @ small]))
           else (if small \<noteq> [] \<and> m \<le> int (length small) then communities res = [small]
                 else communities res = []))) \<and>
       (leiden lib G = Inr cs \<and> newman_girvan_modularity lib G cs = Inr q \<and> cs \<noteq> [] \<longrightarrow>
          (\<exists>res. detect_communities_leiden (Some lib) G m = Some res \<and>
             method_name res = ''leiden_filtered'' \<and>
             (large \<noteq> [] \<longrightarrow>
                (if small = [] then communities res = large
                 else (\<exists>i. first_largest large i \<and> communities res = large[i := large ! i @ small]))) \<and>
             (large = [] \<and> int (length small) < m \<longrightarrow> communities res = []))))"
proof -
  define large where "large = filter (\<lambda>c. m \<le> int (length c)) cs"
  define small where "small = concat (filter (\<lambda>c. \<not> m \<le> int (length c)) cs)"
  have sp: "split_by_size m cs [] [] = (large, small)"
    by (simp add: split_by_size_start large_def small_def)
  have A: "\<exists>res. filter_communities_by_size \<lparr>communities = cs, method_name = name\<rparr> m = Inr res \<and>
          method_name res = ''filtered_'' @ name \<and>
          (if large \<noteq> []
           then (if small = [] then communities res = large
                 else (\<exists>i. first_largest large i \<and> communities res = large[i := large ! i @ small]))
           else (if small \<noteq> [] \<and> m \<le> int (length small) then communities res = [small]
                 else communities res = []))"
  proof (cases "large \<noteq> [] \<and> small \<noteq> []")
    case True
    then obtain i where i: "first_largest large i"
      and mg: "merge_into_largest large small = Inr (large[i := large ! i @ small])"
      using merge_into_largest_ok[of large small] by blast
    have "filter_communities_by_size \<lparr>communities = cs, method_name = name\<rparr> m =
            Inr \<lparr>communities = large[i := large ! i @ small], method_name = ''filtered_'' @ name\<rparr>"
      using True sp mg by (simp add: filter_communities_by_size_def)
    then show ?thesis using True i by auto
  next
    case False
    have "filter_communities_by_size \<lparr>communities = cs, method_name = name\<rparr> m =
            Inr \<lparr>communities = (if small \<noteq> [] \<and> m \<le> int (length small) then large @ [small] else large),
                 method_name = ''filtered_'' @ name\<rparr>"
      using False sp by (auto simp: filter_communities_by_size_def)
    then show ?thesis using False by auto
  qed
  have B: "\<exists>res. detect_communities_leiden (Some lib) G m = Some res \<and>
             method_name res = ''leiden_filtered'' \<and>
             (large \<noteq> [] \<longrightarrow>
                (if small = [] then communities res = large
                 else (\<exists>i. first_largest large i \<and> communities res = large[i := large ! i @ small]))) \<and>
             (large = [] \<and> int (length small) < m \<longrightarrow> communities res = [])"
    if part: "leiden lib G = Inr cs" and modu: "newman_girvan_modularity lib G cs = Inr q"
      and ne: "cs \<noteq> []"
  proof (cases "large \<noteq> [] \<and> small \<noteq> []")
    case True
    then obtain i where i: "first_largest large i"
      and mg: "merge_into_largest large small = Inr (large[i := large ! i @ small])"
      using merge_into_largest_ok[of large small] by blast
    have "detect_communities_leiden (Some lib) G m =
            Some \<lparr>communities = large[i := large ! i @ small], method_name = ''leiden_filtered''\<rparr>"
      using True sp mg part modu ne by (simp add: detect_communities_leiden_def)
    then show ?thesis using True i by auto
  next
    case False
    have "detect_communities_leiden (Some lib) G m =
            Some \<lparr>communities = large, method_name = ''leiden_filtered''\<rparr>"
      using False sp part modu ne by (auto simp: detect_communities_leiden_def)
    then show ?thesis using False by auto
  qed
  show ?thesis
    unfolding Let_def large_def[symmetric] small_def[symmetric]
    using A B by blast
qed

text \<open>
  Four communities and \<open>m = 2\<close>: the two singletons join the first of the two pairs.
\<close>

theorem C2_size_filter_witness:
  "filter_communities_by_size \<lparr>communities = four_communities, method_name = ''leiden''\<rparr> 2 =
     Inr \<lparr>communities = [[''P_a'', ''S_b'', ''P_c'', ''S_f''], [''P_d'', ''S_e'']],
          method_name = ''filtered_leiden''\<rparr> \<and>
   detect_communities_leiden (Some (example_cdlib four_communities)) empty_graph 2 =
     Some \<lparr>communities = [[''P_a'', ''S_b'', ''P_c'', ''S_f''], [''P_d'', ''S_e'']],
           method_name = ''leiden_filtered''\<rparr>"
proof -
  have lib: "leiden (example_cdlib four_communities) empty_graph = Inr four_communities \<and>
        newman_girvan_modularity (example_cdlib four_communities) empty_graph four_communities = Inr 0 \<and>
        four_communities \<noteq> []"
    by (simp add: example_cdlib_def four_communities_def)
  have large: "filter (\<lambda>c. 2 \<le> int (length c)) four_communities = [[''P_a'', ''S_b''], [''P_d'', ''S_e'']]"
    by (simp add: four_communities_def)
  have small: "concat (filter (\<lambda>c. \<not> 2 \<le> int (length c)) four_communities) = [''P_c'', ''S_f'']"
    by (simp add: four_communities_def)
  from C2_size_filter[of 2 four_communities "''leiden''" "example_cdlib four_communities" empty_graph 0]
  obtain res res' where
    r: "filter_communities_by_size \<lparr>communities = four_communities, method_name = ''leiden''\<rparr> 2 = Inr res"
      "method_name res = ''filtered_'' @ ''leiden''"
      "\<exists>i. first_largest [[''P_a'', ''S_b''], [''P_d'', ''S_e'']] i \<and>
         communities res = [[''P_a'', ''S_b''], [''P_d'', ''S_e'']]
           [i := [[''P_a'', ''S_b''], [''P_d'', ''S_e'']] ! i @ [''P_c'', ''S_f'']]"
    and r': "detect_communities_leiden (Some (example_cdlib four_communities)) empty_graph 2 = Some res'"
      "method_name res' = ''leiden_filtered''"
      "\<exists>i. first_largest [[''P_a'', ''S_b''], [''P_d'', ''S_e'']] i \<and>
         communities res' = [[''P_a'', ''S_b''], [''P_d'', ''S_e'']]
           [i := [[''P_a'', ''S_b''], [''P_d'', ''S_e'']] ! i @ [''P_c'', ''S_f'']]"
    unfolding Let_def large small using lib by auto
  from r(3) have "communities res = [[''P_a'', ''S_b'', ''P_c'', ''S_f''], [''P_d'', ''S_e'']]"
    by (auto dest: first_largest_example)
  moreover from r'(3) have "communities res' = [[''P_a'', ''S_b'', ''P_c'', ''S_f''], [''P_d'', ''S_e'']]"
    by (auto dest: first_largest_example)
  ultimately show ?thesis using r(1,2) r'(1,2) by simp
qed

text \<open>
  Claim C2 as stated fails: when no community survives and the small nodes are fewer
  than \<open>m\<close>, both filters return a result with no community, not a failure.
\<close>

theorem C2_no_failure_counterexample:
  "filter_communities_by_size \<lparr>communities = [[''P_a'']], method_name = ''leiden''\<rparr> 2 =
     Inr \<lparr>communities = [], method_name = ''filtered_leiden''\<rparr> \<and>
   detect_communities_leiden (Some (example_cdlib [[''P_a'']])) empty_graph 2 =
     Some \<lparr>communities = [], method_name = ''leiden_filtered''\<rparr>"
  by (simp add: filter_communities_by_size_def detect_communities_leiden_def example_cdlib_def)

section \<open>Properties of the community statistics\<close>












lemma analyze_community_id:
  "analyze_community G i community = Inr (Some row) \<Longrightarrow> community_id row = i"
  by (auto simp: analyze_community_def Let_def split: sum.splits if_splits)

lemma analyze_community_no_patient:
  "node_data G community = Inr ds \<Longrightarrow> patients_of ds = [] \<Longrightarrow>
   analyze_community G i community = Inr None"
  by (simp add: analyze_community_def)

lemma community_rows_origin:
  "community_rows G i cs = Inr rows \<Longrightarrow> r \<in> set rows \<Longrightarrow>
   \<exists>j<length cs. analyze_community G (i + j) (cs ! j) = Inr (Some r)"
proof (induction cs arbitrary: i rows)
  case Nil
  then show ?case by simp
next
  case (Cons c cs)
  from Cons.prems(1) obtain row rest where row: "analyze_community G i c = Inr row"
    and rest: "community_rows G (Suc i) cs = Inr rest"
    and rows: "rows = (case row of None \<Rightarrow> rest | Some x \<Rightarrow> x # rest)"
    by (auto split: sum.splits)
  show ?case
  proof (cases "r \<in> set rest")
    case True
    from Cons.IH[OF rest True] obtain j where "j < length cs"
      "analyze_community G (Suc i + j) (cs ! j) = Inr (Some r)" by blast
    then have "Suc j < length (c # cs) \<and> analyze_community G (i + Suc j) ((c # cs) ! Suc j) = Inr (Some r)"
      by simp
    then show ?thesis by blast
  next
    case False
    then have "row = Some r" using rows Cons.prems(2) by (cases row) auto
    then have "0 < length (c # cs) \<and> analyze_community G (i + 0) ((c # cs) ! 0) = Inr (Some r)"
      using row by simp
    then show ?thesis by blast
  qed
qed

lemma analyze_patterns_rows:
  assumes "analyze_community_dna_patterns G comms = Inr community_df"
  shows "\<exists>rows. community_rows G 0 (communities comms) = Inr rows \<and> set community_df = set rows"
  using assms
  by (auto simp: analyze_community_dna_patterns_def split: sum.splits if_splits)




text \<open>
  Claim C8. A community whose nodes include no patient takes the \<open>continue\<close> of the
  statistics loop, so no row of the resulting frame carries its index; and the risk score
  of an empty list of rates is 0, whatever the counts, with no division attempted.
\<close>

theorem C8_zero_patient_community:
  assumes df: "analyze_community_dna_patterns G comms = Inr community_df"
    and j: "j < length (communities comms)"
    and nd: "node_data G (communities comms ! j) = Inr ds"
    and no: "patients_of ds = []"
  shows "analyze_community G j (communities comms ! j) = Inr None \<and>
         j \<notin> community_id ` set community_df \<and>
         calculate_community_risk_score [] risk_counts = Inr 0"
proof -
  have none: "analyze_community G j (communities comms ! j) = Inr None"
    by (rule analyze_community_no_patient[OF nd no])
  obtain rows where rows: "community_rows G 0 (communities comms) = Inr rows"
    and set: "set community_df = set rows"
    using analyze_patterns_rows[OF df] by blast
  have "community_id r \<noteq> j" if r: "r \<in> set rows" for r
  proof
    assume eq: "community_id r = j"
    obtain j' where j': "analyze_community G (0 + j') (communities comms ! j') = Inr (Some r)"
      using community_rows_origin[OF rows r] by blast
    then have "community_id r = j'" using analyze_community_id[of G j'] by simp
    then show False using eq j' none by simp
  qed
  then have "j \<notin> community_id ` set community_df"
    using set by auto
  moreover have "calculate_community_risk_score [] risk_counts = Inr 0"
    by (simp add: calculate_community_risk_score_def)
  ultimately show ?thesis using none by simp
qed

text \<open>
  Two communities over \<open>scenario_graph\<close>, the second holding the site alone: the frame
  has the one row of community 0.
\<close>

theorem C8_zero_patient_community_witness:
  "\<exists>community_df.
     analyze_community_dna_patterns scenario_graph
       \<lparr>communities = [[''P_1'', ''P_2'', ''P_3''], [''S_1'']], method_name = ''leiden_filtered''\<rparr> = Inr community_df \<and>
     map community_id community_df = [0] \<and>
     1 \<notin> community_id ` set community_df \<and>
     analyze_community scenario_graph 1 [''S_1''] = Inr None \<and>
     calculate_community_risk_score [] [(High, 2)] = Inr 0"
proof -
  let ?comms = "\<lparr>communities = [[''P_1'', ''P_2'', ''P_3''], [''S_1'']], method_name = ''leiden_filtered''\<rparr>"
  have "(case analyze_community_dna_patterns scenario_graph ?comms of
           Inl e \<Rightarrow> None | Inr df \<Rightarrow> Some (map community_id df)) = Some [0]"
    by (simp add: analyze_community_dna_patterns_def analyze_community_def scenario_graph_def
        example_patient_def example_site_def Let_def calculate_community_risk_score_def
        Counter_def counter_get_def)
  then obtain community_df where df: "analyze_community_dna_patterns scenario_graph ?comms = Inr community_df"
    and ids: "map community_id community_df = [0]"
    by (auto split: sum.splits)
  have j: "1 < length (communities ?comms)" by simp
  have nd: "node_data scenario_graph (communities ?comms ! 1) = Inr [example_site]"
    by (simp add: scenario_graph_def)
  have no: "patients_of [example_site] = []" by (simp add: example_site_def)
  from C8_zero_patient_community[OF df j nd no, of "[(High, 2)]"]
  show ?thesis using df ids by simp
qed

section \<open>Properties of the risk tiers\<close>

lemma quantile_Some: "xs \<noteq> [] \<Longrightarrow> \<exists>v. quantile xs q = Some v"
  by (simp add: quantile_def Let_def)

lemma three_singletons_rows:
  "(case analyze_community_dna_patterns scenario_graph three_singletons of
      Inl e \<Rightarrow> None
    | Inr df \<Rightarrow> Some (map (\<lambda>c. (community_id c, risk_score c)) df)) =
   Some [(2, 93 / 100), (1, 14 / 100), (0, 7 / 100)]"
  by (simp add: analyze_community_dna_patterns_def analyze_community_def scenario_graph_def
        three_singletons_def example_patient_def example_site_def Let_def
        calculate_community_risk_score_def Counter_def counter_get_def mean_def)

lemma quantile_three:
  "quantile [93 / 100, 14 / 100, 7 / 100] (75 / 100) = Some (107 / 200)"
  "quantile [93 / 100, 14 / 100, 7 / 100] (25 / 100) = Some (21 / 200)"
  by (simp_all add: quantile_def Let_def)


lemma quantile_two_communities:
  "quantile [1 / 10, 9 / 10] (75 / 100) = Some (7 / 10)"
  "quantile [1 / 10, 9 / 10] (25 / 100) = Some (3 / 10)"
  by (simp_all add: quantile_def Let_def)

text \<open>
  Claim C4, as the code has it. For a frame of at least one community row, the two
  cutoffs are the 0.75 and 0.25 quantiles of the rows' \<open>risk_score\<close>, in
  \<open>identify_high_low_risk_communities\<close> and in the export's metadata alike. The first
  returns as \<open>high_risk\<close> the rows with score at least the high cutoff, as \<open>low_risk\<close>
  those with score at most the low cutoff, and as \<open>medium_risk\<close> the rows that are in
  neither. The export gives each community one label: High when its score is at least
  the high cutoff, else Low when it is at most the low cutoff, else Medium.
\<close>

theorem C4_risk_tiers:
  assumes "community_df \<noteq> []"
  shows "\<exists>h l.
      quantile (map risk_score community_df) (75 / 100) = Some h \<and>
      quantile (map risk_score community_df) (25 / 100) = Some l \<and>
      high_threshold community_df True = Some h \<and>
      low_threshold community_df True = Some l \<and>
      high_risk (identify_high_low_risk_communities community_df True) =
        filter (\<lambda>c. risk_score c \<ge> h) community_df \<and>
      low_risk (identify_high_low_risk_communities community_df True) =
        filter (\<lambda>c. risk_score c \<le> l) community_df \<and>
      medium_risk (identify_high_low_risk_communities community_df True) =
        filter (\<lambda>c. \<not> risk_score c \<ge> h \<and> \<not> risk_score c \<le> l) community_df \<and>
      thresholds_high (metadata (export_for_d3js G comms community_df clock)) = Some h \<and>
      thresholds_low (metadata (export_for_d3js G comms community_df clock)) = Some l \<and>
      map ident (export_communities (export_for_d3js G comms community_df clock)) =
        map community_id community_df \<and>
      map risk_level (export_communities (export_for_d3js G comms community_df clock)) =
        map (\<lambda>c. if risk_score c \<ge> h then High
                  else if risk_score c \<le> l then Low else Medium) community_df"
proof -
  from assms have "map risk_score community_df \<noteq> []" by simp
  then obtain h l where h: "quantile (map risk_score community_df) (75 / 100) = Some h"
    and l: "quantile (map risk_score community_df) (25 / 100) = Some l"
    using quantile_Some by blast
  have h': "quantile (map risk_score community_df) (3 / 4) = Some h" using h by simp
  have l': "quantile (map risk_score community_df) (1 / 4) = Some l" using l by simp
  have m: "(\<lambda>c. l < risk_score c \<and> risk_score c < h) = (\<lambda>c. \<not> risk_score c \<ge> h \<and> \<not> risk_score c \<le> l)"
    by auto
  have "high_risk (identify_high_low_risk_communities community_df True) =
        filter (\<lambda>c. risk_score c \<ge> h) community_df"
    by (simp add: identify_high_low_risk_communities_def high_threshold_def low_threshold_def h' l' ge_nan_def Let_def)
  moreover have "low_risk (identify_high_low_risk_communities community_df True) =
        filter (\<lambda>c. risk_score c \<le> l) community_df"
    by (simp add: identify_high_low_risk_communities_def high_threshold_def low_threshold_def h' l' le_nan_def Let_def)
  moreover have "medium_risk (identify_high_low_risk_communities community_df True) =
        filter (\<lambda>c. \<not> risk_score c \<ge> h \<and> \<not> risk_score c \<le> l) community_df"
    by (simp add: identify_high_low_risk_communities_def high_threshold_def low_threshold_def h' l'
        gt_nan_def lt_nan_def m Let_def)
  moreover have "thresholds_high (metadata (export_for_d3js G comms community_df clock)) = Some h"
    "thresholds_low (metadata (export_for_d3js G comms community_df clock)) = Some l"
    by (simp_all add: export_for_d3js_def Let_def h' l')
  moreover have "map ident (export_communities (export_for_d3js G comms community_df clock)) =
        map community_id community_df"
    by (simp add: export_for_d3js_def Let_def export_community_of_def comp_def)
  moreover have "map risk_level (export_communities (export_for_d3js G comms community_df clock)) =
        map (\<lambda>c. if risk_score c \<ge> h then High
                  else if risk_score c \<le> l then Low else Medium) community_df"
    by (simp add: export_for_d3js_def Let_def export_community_of_def comp_def h' l'
        risk_level_of_def ge_nan_def le_nan_def)
  ultimately show ?thesis
    using h' l' by (simp add: high_threshold_def low_threshold_def)
qed

text \<open>
  Three communities of \<open>scenario_graph\<close> with scores 0.93, 0.14 and 0.07: the cutoffs are
  0.535 and 0.105, and the tiers are High, Medium and Low.
\<close>

theorem C4_risk_tiers_witness:
  "\<exists>df. analyze_community_dna_patterns scenario_graph three_singletons = Inr df \<and>
      map community_id df = [2, 1, 0] \<and>
      map risk_score df = [93 / 100, 14 / 100, 7 / 100] \<and>
      thresholds_high (metadata (export_for_d3js scenario_graph three_singletons df 0)) = Some (107 / 200) \<and>
      thresholds_low (metadata (export_for_d3js scenario_graph three_singletons df 0)) = Some (21 / 200) \<and>
      map risk_level (export_communities (export_for_d3js scenario_graph three_singletons df 0)) =
        [High, Medium, Low] \<and>
      map community_id (high_risk (identify_high_low_risk_communities df True)) = [2] \<and>
      map community_id (medium_risk (identify_high_low_risk_communities df True)) = [1] \<and>
      map community_id (low_risk (identify_high_low_risk_communities df True)) = [0]"
proof -
  from three_singletons_rows obtain df where
    df: "analyze_community_dna_patterns scenario_graph three_singletons = Inr df"
    and rows: "map (\<lambda>c. (community_id c, risk_score c)) df = [(2, 93 / 100), (1, 14 / 100), (0, 7 / 100)]"
    by (auto split: sum.splits)
  from rows obtain c2 c1 c0 where l: "df = [c2, c1, c0]"
    and c2: "community_id c2 = 2" "risk_score c2 = 93 / 100"
    and c1: "community_id c1 = 1" "risk_score c1 = 14 / 100"
    and c0: "community_id c0 = 0" "risk_score c0 = 7 / 100"
    by auto
  have ne: "df \<noteq> []" using l by simp
  have sc: "map risk_score df = [93 / 100, 14 / 100, 7 / 100]"
    using l c2 c1 c0 by simp
  from C4_risk_tiers[OF ne, of scenario_graph three_singletons 0]
  obtain h lo where
    q: "quantile (map risk_score df) (75 / 100) = Some h"
       "quantile (map risk_score df) (25 / 100) = Some lo"
    and t: "thresholds_high (metadata (export_for_d3js scenario_graph three_singletons df 0)) = Some h"
       "thresholds_low (metadata (export_for_d3js scenario_graph three_singletons df 0)) = Some lo"
    and lev: "map risk_level (export_communities (export_for_d3js scenario_graph three_singletons df 0)) =
        map (\<lambda>c. if risk_score c \<ge> h then High
                  else if risk_score c \<le> lo then Low else Medium) df"
    and hi: "high_risk (identify_high_low_risk_communities df True) = filter (\<lambda>c. risk_score c \<ge> h) df"
    and lw: "low_risk (identify_high_low_risk_communities df True) = filter (\<lambda>c. risk_score c \<le> lo) df"
    and md: "medium_risk (identify_high_low_risk_communities df True) =
        filter (\<lambda>c. \<not> risk_score c \<ge> h \<and> \<not> risk_score c \<le> lo) df"
    by blast
  have h: "h = 107 / 200" and lo: "lo = 21 / 200"
    using q quantile_three unfolding sc by simp_all
  have levels: "map risk_level (export_communities (export_for_d3js scenario_graph three_singletons df 0)) =
        [High, Medium, Low]"
    unfolding lev h lo by (simp add: l c2 c1 c0)
  have tiers: "map community_id (high_risk (identify_high_low_risk_communities df True)) = [2]"
    "map community_id (medium_risk (identify_high_low_risk_communities df True)) = [1]"
    "map community_id (low_risk (identify_high_low_risk_communities df True)) = [0]"
    unfolding hi lw md h lo by (simp_all add: l c2 c1 c0)
  have ids: "map community_id df = [2, 1, 0]"
    by (simp add: l c2 c1 c0)
  show ?thesis
    using df ids sc t levels tiers unfolding h lo
    by (intro exI[of _ df]) simp
qed

text \<open>
  Claim C4 as stated fails for the export's label: with a single community both cutoffs
  equal its score 0.38, so the score is at most the low cutoff, yet the label is High.
\<close>

theorem C4_low_tier_counterexample:
  "(case analyze_community_dna_patterns scenario_graph one_community of
      Inl e \<Rightarrow> False
    | Inr df \<Rightarrow>
        map risk_score df = [38 / 100] \<and>
        thresholds_low (metadata (export_for_d3js scenario_graph one_community df 0)) = Some (38 / 100) \<and>
        map risk_level (export_communities (export_for_d3js scenario_graph one_community df 0)) = [High])"
  by (simp add: analyze_community_dna_patterns_def analyze_community_def scenario_graph_def
        one_community_def example_patient_def example_site_def Let_def
        calculate_community_risk_score_def Counter_def counter_get_def mean_def
        export_for_d3js_def export_community_of_def quantile_def risk_level_of_def ge_nan_def le_nan_def)

section \<open>Properties of the analysis run\<close>

lemma create_graph_clean_total:
  "\<exists>G. create_enhanced_bipartite_graph (clean_for_network df) = Inr G"
  using create_graph_total[of "clean_for_network df"] by blast

lemma detect_unavailable: "detect_communities_leiden None G m = None"
  by (simp add: detect_communities_leiden_def)

lemma sample_default_seed:
  "\<exists>sampled_df w'. sample_data_for_network seeded sample df max_records 42 w = (Inr sampled_df, w') \<and>
      (w' = w \<or> w' = w\<lparr>np_random := seeded 42\<rparr>)"
  by (cases "length df \<le> max_records") (simp_all add: sample_data_for_network_def)

lemmas run_defs = run_pipeline_def run_outputs_def sample_data_for_network_def example_env_def
      example_cdlib_def pair_cdlib_def initial_world_def initial_state_def other_world_def set_progress_def
      clean_for_network_def List.map_filter_def clean_row_def example_row_def
      create_enhanced_bipartite_graph_def unique_def patient_node_attrs_def
      site_node_attrs_def edge_step_def has_edge_def Let_def classify_age_def
      detect_communities_leiden_def
      analyze_community_dna_patterns_def analyze_community_def
      calculate_community_risk_score_def Counter_def counter_get_def mean_def py_max_def
      identify_high_low_risk_communities_def high_threshold_def low_threshold_def
      export_for_d3js_def quantile_def ge_nan_def le_nan_def gt_nan_def lt_nan_def

lemma example_run:
  "fst (run_outputs (run_pipeline (example_env (Some pair_cdlib) 5) 2 42 2 other_world)) = Returned True \<and>
   map_option (\<lambda>(network_data, scores, h, l, risk). (length network_data, scores, h, l))
     (snd (run_outputs (run_pipeline (example_env (Some pair_cdlib) 5) 2 42 2 other_world))) =
     Some (2, [(0, 1 / 5)], Some (1 / 5), Some (1 / 5))"
  by (simp add: run_defs)

lemma example_run_bad_seed:
  "run_outputs (run_pipeline (example_env (Some pair_cdlib) 5) 2 (- 1) 2 other_world) =
     (Raised (ValueError ''Seed must be between 0 and 2**32 - 1''), None)"
  by (simp add: run_pipeline_def run_outputs_def sample_data_for_network_def example_env_def
      fail_def)

lemma example_samples:
  "fst (sample_data_for_network (seed_state (example_env lib 0)) (pandas_sample (example_env lib 0))
          [example_row ''P1'' ''S1'' ''5'' ''100'', example_row ''P1'' ''S1'' ''3'' ''200'',
           example_row ''P2'' ''S1'' ''5'' ''100''] 2 42 (initial_world 0)) =
     Inr [example_row ''P1'' ''S1'' ''5'' ''100'', example_row ''P1'' ''S1'' ''3'' ''200'']"
  "fst (sample_data_for_network (seed_state (example_env lib 0)) (pandas_sample (example_env lib 0))
          [example_row ''P1'' ''S1'' ''5'' ''100'', example_row ''P1'' ''S1'' ''3'' ''200'',
           example_row ''P2'' ''S1'' ''5'' ''100''] 2 43 (initial_world 0)) =
     Inr [example_row ''P2'' ''S1'' ''5'' ''100'', example_row ''P1'' ''S1'' ''3'' ''200'']"
  by (simp_all add: sample_data_for_network_def example_env_def)

text \<open>
  Claim C6. When cdlib is not installed, \<open>detect_communities_leiden\<close> returns \<open>None\<close>
  on every graph instead of raising, and, the data loaded, \<open>run_analysis\<close> ends by
  raising the exception "Community detection failed - check dependencies" after
  recording it in \<open>analysis_progress\<close>; the export file and the stored results are as
  they were before the run, and the state accepts a new \<open>/initialize\<close> request unless
  an earlier run had completed.
\<close>

theorem C6_backend_unavailable:
  assumes load: "load_and_preprocess_data env = Inr processed_df"
    and unavailable: "algorithms env = None"
  shows "\<exists>w'. run_analysis env w =
             (w', Raised (Exception ''Community detection failed - check dependencies'')) \<and>
           analysis_progress (analysis_state w') =
             ''error: Community detection failed - check dependencies'' \<and>
           export_file w' = export_file w \<and>
           initialized (analysis_state w') = initialized (analysis_state w) \<and>
           last_updated (analysis_state w') = last_updated (analysis_state w) \<and>
           state_graph (analysis_state w') = state_graph (analysis_state w) \<and>
           state_communities (analysis_state w') = state_communities (analysis_state w) \<and>
           state_community_df (analysis_state w') = state_community_df (analysis_state w) \<and>
           initialize_analysis (analysis_state w') =
             (if initialized (analysis_state w) then Already_completed else Analysis_started) \<and>
           detect_communities_leiden (algorithms env) G m = None"
proof -
  obtain sampled_df w1 where s: "sample_data_for_network (seed_state env) (pandas_sample env)
      processed_df 20000 42 (set_progress ''sampling_data'' w) = (Inr sampled_df, w1)"
    and w1: "w1 = set_progress ''sampling_data'' w \<or>
            w1 = (set_progress ''sampling_data'' w)\<lparr>np_random := seed_state env 42\<rparr>"
    using sample_default_seed[of "seed_state env" "pandas_sample env" processed_df 20000
        "set_progress ''sampling_data'' w"]
    by blast
  obtain G' where G': "create_enhanced_bipartite_graph (clean_for_network sampled_df) = Inr G'"
    using create_graph_clean_total by blast
  have run: "run_analysis env w =
      fail (set_progress ''detecting_communities'' w1)
        (Exception ''Community detection failed - check dependencies'')"
    by (simp add: run_analysis_def run_pipeline_def load s G' unavailable detect_unavailable Let_def)
  show ?thesis
    unfolding run unavailable using w1
    by (auto simp: fail_def set_progress_def initialize_analysis_def detect_unavailable)
qed

text \<open>The first run of a service without cdlib: failed, nothing exported, restartable.\<close>

theorem C6_backend_unavailable_witness:
  "\<exists>w'. run_analysis (example_env None 0) (initial_world 0) =
             (w', Raised (Exception ''Community detection failed - check dependencies'')) \<and>
        analysis_progress (analysis_state w') =
             ''error: Community detection failed - check dependencies'' \<and>
        export_file w' = None \<and>
        initialized (analysis_state w') = False \<and>
        initialize_analysis (analysis_state w') = Analysis_started"
proof -
  have load: "load_and_preprocess_data (example_env None 0) =
        Inr [example_row ''P1'' ''S1'' ''5'' ''100'', example_row ''P1'' ''S1'' ''3'' ''200'',
             example_row ''P2'' ''S1'' ''5'' ''100'']"
    by (simp add: example_env_def)
  have un: "algorithms (example_env None 0) = None"
    by (simp add: example_env_def)
  from C6_backend_unavailable[OF load un, of "initial_world 0"]
  show ?thesis by (auto simp: initial_world_def initial_state_def)
qed

text \<open>
  Claim C9. Take the libraries at their word: a seed in range fixes a generator state,
  a draw is fixed by the state it draws from, and the partitioner is a function of the
  graph. Then the rows \<open>sample_data_for_network\<close> returns are the whole frame when it is
  within the cap, and otherwise the draw from the state of the given seed (or the
  \<open>ValueError\<close> of a seed out of range): they are the same in any two worlds, whatever
  state numpy's global generator is in. And two runs with the same input, cap, seed and
  minimum community size, started in any two worlds at any two times, end the same way
  with the same cleaned rows, risk scores, cutoffs and tiers.
\<close>

theorem C9_runs_agree:
  "fst (sample_data_for_network seeded sample df max_records seed w1) =
   fst (sample_data_for_network seeded sample df max_records seed w2) \<and>
   fst (sample_data_for_network seeded sample df max_records seed w1) =
     (if length df \<le> max_records then Inr df
      else if 0 \<le> seed \<and> seed < 2 ^ 32 then Inr (sample (seeded seed) max_records df)
      else Inl (ValueError ''Seed must be between 0 and 2**32 - 1'')) \<and>
   run_outputs (run_pipeline (env\<lparr>export_time := t1, update_time := u1\<rparr>) max_records seed m w1) =
   run_outputs (run_pipeline (env\<lparr>export_time := t2, update_time := u2\<rparr>) max_records seed m w2)"
proof -
  have A: "fst (sample_data_for_network seeded sample df max_records seed w) =
     (if length df \<le> max_records then Inr df
      else if 0 \<le> seed \<and> seed < 2 ^ 32 then Inr (sample (seeded seed) max_records df)
      else Inl (ValueError ''Seed must be between 0 and 2**32 - 1''))" for w
    by (simp add: sample_data_for_network_def)
  have B: "run_outputs (run_pipeline (env\<lparr>export_time := t, update_time := u\<rparr>) max_records seed m w) =
           run_outputs (run_pipeline (env\<lparr>export_time := 0, update_time := 0\<rparr>) max_records seed m w1)"
    for t u w
    by (simp add: run_pipeline_def run_outputs_def sample_data_for_network_def fail_def Let_def
        export_for_d3js_def
        split: sum.splits option.splits prod.splits)
  show ?thesis
    using A[of w1] A[of w2] B[where t=t1 and u=u1 and w=w1] B[where t=t2 and u=u2 and w=w2]
    by simp
qed

text \<open>
  Two runs over the example environment with seed 42, from the initial world and from the
  world of an earlier failure whose global generator is in another state, at different
  times: both return, with the one community's score 0.2 as both cutoffs. The seed
  matters to the sampler: seed 42 draws the first two rows, seed 43 the last two.
\<close>

theorem C9_runs_agree_witness:
  "run_outputs (run_pipeline (example_env (Some pair_cdlib) 0) 2 42 2 (initial_world 0)) =
   run_outputs (run_pipeline (example_env (Some pair_cdlib) 5) 2 42 2 other_world) \<and>
   fst (run_outputs (run_pipeline (example_env (Some pair_cdlib) 5) 2 42 2 other_world)) = Returned True \<and>
   map_option (\<lambda>(network_data, scores, h, l, risk). (length network_data, scores, h, l))
     (snd (run_outputs (run_pipeline (example_env (Some pair_cdlib) 5) 2 42 2 other_world))) =
     Some (2, [(0, 1 / 5)], Some (1 / 5), Some (1 / 5)) \<and>
   fst (sample_data_for_network (seed_state (example_env None 0)) (pandas_sample (example_env None 0))
          [example_row ''P1'' ''S1'' ''5'' ''100'', example_row ''P1'' ''S1'' ''3'' ''200'',
           example_row ''P2'' ''S1'' ''5'' ''100''] 2 42 other_world) =
     Inr [example_row ''P1'' ''S1'' ''5'' ''100'', example_row ''P1'' ''S1'' ''3'' ''200''] \<and>
   fst (sample_data_for_network (seed_state (example_env None 0)) (pandas_sample (example_env None 0))
          [example_row ''P1'' ''S1'' ''5'' ''100'', example_row ''P1'' ''S1'' ''3'' ''200'',
           example_row ''P2'' ''S1'' ''5'' ''100''] 2 43 other_world) =
     Inr [example_row ''P2'' ''S1'' ''5'' ''100'', example_row ''P1'' ''S1'' ''3'' ''200'']"
proof -
  let ?rows = "[example_row ''P1'' ''S1'' ''5'' ''100'', example_row ''P1'' ''S1'' ''3'' ''200'',
           example_row ''P2'' ''S1'' ''5'' ''100'']"
  let ?st = "seed_state (example_env None 0)"
  let ?smp = "pandas_sample (example_env None 0)"
  have e0: "(example_env (Some pair_cdlib) 0)\<lparr>export_time := 0, update_time := 1\<rparr> =
        example_env (Some pair_cdlib) 0"
    by (simp add: example_env_def)
  have e5: "(example_env (Some pair_cdlib) 0)\<lparr>export_time := 5, update_time := 6\<rparr> =
        example_env (Some pair_cdlib) 5"
    by (simp add: example_env_def)
  have runs: "run_outputs (run_pipeline (example_env (Some pair_cdlib) 0) 2 42 2 (initial_world 0)) =
        run_outputs (run_pipeline (example_env (Some pair_cdlib) 5) 2 42 2 other_world)"
    using C9_runs_agree[where env = "example_env (Some pair_cdlib) 0" and ?t1.0 = 0 and ?u1.0 = 1
        and ?t2.0 = 5 and ?u2.0 = 6 and max_records = 2 and seed = 42 and m = 2
        and ?w1.0 = "initial_world 0" and ?w2.0 = other_world, THEN conjunct2, THEN conjunct2]
    unfolding e0 e5 .
  have s42: "fst (sample_data_for_network ?st ?smp ?rows 2 42 other_world) =
        fst (sample_data_for_network ?st ?smp ?rows 2 42 (initial_world 0))"
    using C9_runs_agree[where seeded = ?st and sample = ?smp and df = ?rows and max_records = 2
        and seed = 42 and ?w1.0 = other_world and ?w2.0 = "initial_world 0", THEN conjunct1] .
  have s43: "fst (sample_data_for_network ?st ?smp ?rows 2 43 other_world) =
        fst (sample_data_for_network ?st ?smp ?rows 2 43 (initial_world 0))"
    using C9_runs_agree[where seeded = ?st and sample = ?smp and df = ?rows and max_records = 2
        and seed = 43 and ?w1.0 = other_world and ?w2.0 = "initial_world 0", THEN conjunct1] .
  show ?thesis
    using runs example_run example_samples[of None] unfolding s42 s43 by simp
qed

end
